theory Spec2Isabelle
  imports Main "HOL-Library.AList"
begin

section \<open>Values, errors and the store\<close>

text \<open>
  The two scripts \<^verbatim>\<open>insert_data.py\<close> (the loader) and \<^verbatim>\<open>run_report_to_db.py\<close>
  (the report materializer) work on one SQLite file through Python's \<^verbatim>\<open>sqlite3\<close>
  module. The embedding keeps the Python of both scripts as it is written and gives the
  statements they send a semantics on an explicit store.

  What is not code of the repository is a parameter or a stated convention:
  \<^item> the builtins \<^verbatim>\<open>int\<close> and \<^verbatim>\<open>float\<close> are functions \<open>string \<Rightarrow> _ option\<close>
    (\<open>None\<close> is the \<^verbatim>\<open>ValueError\<close> they raise); the type \<open>'f\<close> stands for Python's floats;
  \<^item> a CSV file is the list of dictionaries \<^verbatim>\<open>csv.DictReader\<close> yields for it; a missing
    column or a short line gives \<open>None\<close> under that key, as \<^verbatim>\<open>r.get\<close> does;
  \<^item> the SQL engine's evaluation of the report query is a function from the query text
    and the database to an error or a table;
  \<^item> a table is its schema and its rows in insertion order, kept in the store under the
    name the scripts create it with; the loader splices its \<^verbatim>\<open>table\<close> argument into
    the text \<^verbatim>\<open>SELECT COUNT(*) FROM {table}\<close>, and what the engine answers for a text
    that is not such a name (a name in another case, a qualified or aliased name, the
    schema table, no table at all) is a function from the text and the database to an
    error or a count.
\<close>

datatype 'f sqlval = SqlNull | SqlInt int | SqlReal 'f | SqlText string

type_synonym 'f row = "'f sqlval list"

datatype error =
    InvalidIntLiteral string      \<comment> \<open>\<^verbatim>\<open>ValueError\<close> raised by \<^verbatim>\<open>int(v)\<close>\<close>
  | InvalidFloatLiteral string    \<comment> \<open>\<^verbatim>\<open>ValueError\<close> raised by \<^verbatim>\<open>float(v)\<close>\<close>
  | UnknownTable string           \<comment> \<open>\<^verbatim>\<open>ValueError(f"Unknown table {table}")\<close>\<close>
  | TypeError                     \<comment> \<open>\<^verbatim>\<open>Path(None)\<close>\<close>
  | OverflowError                 \<comment> \<open>Python int too large to convert to SQLite INTEGER\<close>
  | OperationalError string       \<comment> \<open>\<^verbatim>\<open>sqlite3.OperationalError\<close>\<close>
  | IntegrityError string         \<comment> \<open>\<^verbatim>\<open>sqlite3.IntegrityError\<close>\<close>

text \<open>
  A table as \<^verbatim>\<open>CREATE TABLE\<close> declares it: the column names, the
  \<^verbatim>\<open>INTEGER PRIMARY KEY\<close> column if there is one, the \<^verbatim>\<open>NOT NULL\<close> columns and the
  \<^verbatim>\<open>FOREIGN KEY(c) REFERENCES parent(ID)\<close> clauses as pairs \<open>(c, parent)\<close>.
\<close>

record schema =
  columns :: "string list"
  primary_key :: "string option"
  not_null :: "string list"
  references :: "(string \<times> string) list"

record 'f table =
  schema :: schema
  rows :: "'f row list"

type_synonym 'f db = "string \<rightharpoonup> 'f table"

type_synonym csv_row = "string \<rightharpoonup> string"

datatype stmt =
    PragmaForeignKeysOn
  | CreateTableIfNotExists string schema
  | SelectCount string
  | InsertOrIgnore string "string list"
  | DropTableIfExists string
  | CreateTableAs string string

datatype action = Connect | Execute stmt | ExecuteMany stmt nat | Commit | Close

text \<open>
  The process state: the database file (\<open>None\<close> while the file does not exist), what
  the open connection sees (the file's content plus the pending transaction), whether a
  transaction is open, the \<^verbatim>\<open>foreign_keys\<close> pragma, the calls made on the connection
  in order, and the lines printed.
\<close>

record 'f state =
  disk :: "'f db option"
  view :: "'f db"
  in_txn :: bool
  foreign_keys :: bool
  trace :: "action list"
  stdout :: "string list"

text \<open>
  The parameters: the two builtins and the three engine choices the code does not make.
\<close>

record 'f env =
  py_int :: "string \<Rightarrow> int option"
  py_float :: "string \<Rightarrow> 'f option"
  pick_rowid :: "int list \<Rightarrow> int option"
  run_query :: "string \<Rightarrow> 'f db \<Rightarrow> error + 'f table"
  count_query :: "string \<Rightarrow> 'f db \<Rightarrow> error + int"

definition bindE :: "error + 'a \<Rightarrow> ('a \<Rightarrow> error + 'b) \<Rightarrow> error + 'b" where
  "bindE m f = (case m of Inl e \<Rightarrow> Inl e | Inr x \<Rightarrow> f x)"

section \<open>The loader: coercions\<close>

definition to_int :: "(string \<Rightarrow> int option) \<Rightarrow> string option \<Rightarrow> error + int option" where
  "to_int int_builtin v =
     (case v of
        None \<Rightarrow> Inr None
      | Some s \<Rightarrow>
          if s = '''' then Inr None
          else (case int_builtin s of
                  None \<Rightarrow> Inl (InvalidIntLiteral s)
                | Some n \<Rightarrow> Inr (Some n)))"

definition to_float :: "(string \<Rightarrow> 'f option) \<Rightarrow> string option \<Rightarrow> error + 'f option" where
  "to_float float_builtin v =
     (case v of
        None \<Rightarrow> Inr None
      | Some s \<Rightarrow>
          if s = '''' then Inr None
          else (case float_builtin s of
                  None \<Rightarrow> Inl (InvalidFloatLiteral s)
                | Some x \<Rightarrow> Inr (Some x)))"

text \<open>How \<^verbatim>\<open>sqlite3\<close> binds a Python value: \<^verbatim>\<open>None\<close> is NULL.\<close>

definition bind_int :: "int option \<Rightarrow> 'f sqlval" where
  "bind_int v = (case v of None \<Rightarrow> SqlNull | Some n \<Rightarrow> SqlInt n)"

definition bind_float :: "'f option \<Rightarrow> 'f sqlval" where
  "bind_float v = (case v of None \<Rightarrow> SqlNull | Some x \<Rightarrow> SqlReal x)"

definition bind_str :: "string option \<Rightarrow> 'f sqlval" where
  "bind_str v = (case v of None \<Rightarrow> SqlNull | Some s \<Rightarrow> SqlText s)"

section \<open>The store engine\<close>

text \<open>
  The statements the two scripts send, with the behaviour SQLite and the \<^verbatim>\<open>sqlite3\<close>
  module document for them, on tables declared as \<^verbatim>\<open>create_tables\<close> declares them
  (an integer key that is the row id, NOT NULL columns, foreign keys to a parent's
  \<^verbatim>\<open>ID\<close>). Values are stored as they are bound; triggers, views, other constraints
  and conversions between storage classes do not occur in these scripts and are not
  modelled.

  \<^verbatim>\<open>sqlite3.connect\<close> opens the file and creates it when it is absent. The connection
  starts outside a transaction with the \<^verbatim>\<open>foreign_keys\<close> pragma off.
\<close>

definition persisted :: "'f state \<Rightarrow> 'f db" where
  "persisted s = (case disk s of None \<Rightarrow> Map.empty | Some d \<Rightarrow> d)"

definition connect :: "'f state \<Rightarrow> 'f state" where
  "connect s =
     s\<lparr>disk := Some (persisted s), view := persisted s, in_txn := False,
       foreign_keys := False, trace := trace s @ [Connect]\<rparr>"

text \<open>
  \<^verbatim>\<open>conn.commit()\<close> makes the pending changes the file's content; \<^verbatim>\<open>conn.close()\<close>
  drops what was not committed.
\<close>

definition commit :: "'f state \<Rightarrow> 'f state" where
  "commit s = s\<lparr>disk := Some (view s), in_txn := False, trace := trace s @ [Commit]\<rparr>"

definition close :: "'f state \<Rightarrow> 'f state" where
  "close s = s\<lparr>view := persisted s, in_txn := False, trace := trace s @ [Close]\<rparr>"

text \<open>
  The \<^verbatim>\<open>sqlite3\<close> module opens a transaction before an \<^verbatim>\<open>INSERT\<close> only: a pragma or
  a \<^verbatim>\<open>CREATE\<close>/\<^verbatim>\<open>DROP\<close> statement executed outside a transaction is written to the
  file at once.
\<close>

definition write_through :: "'f state \<Rightarrow> 'f state" where
  "write_through s = (if in_txn s then s else s\<lparr>disk := Some (view s)\<rparr>)"

definition logged :: "action \<Rightarrow> 'f state \<Rightarrow> 'f state" where
  "logged a s = s\<lparr>trace := trace s @ [a]\<rparr>"

definition execute_pragma :: "'f state \<Rightarrow> 'f state" where
  \<comment> \<open>\<^verbatim>\<open>PRAGMA foreign_keys = ON;\<close> is a no-op inside a transaction\<close>
  "execute_pragma s =
     (let s1 = logged (Execute PragmaForeignKeysOn) s
      in if in_txn s1 then s1 else s1\<lparr>foreign_keys := True\<rparr>)"

definition execute_create_table :: "string \<Rightarrow> schema \<Rightarrow> 'f state \<Rightarrow> 'f state" where
  \<comment> \<open>\<^verbatim>\<open>CREATE TABLE IF NOT EXISTS name (...)\<close>: an existing table is kept as it is\<close>
  "execute_create_table name sch s =
     (let s1 = logged (Execute (CreateTableIfNotExists name sch)) s
      in if name \<in> dom (view s1) then s1
         else write_through (s1\<lparr>view := (view s1)(name \<mapsto> \<lparr>schema = sch, rows = []\<rparr>)\<rparr>))"

definition count_rows :: "'f env \<Rightarrow> string \<Rightarrow> 'f db \<Rightarrow> error + int" where
  \<comment> \<open>the answer to \<^verbatim>\<open>SELECT COUNT(*) FROM {table}\<close>: the number of rows when the text
      is the name of a table of the store, else what the engine makes of the text; a
      \<^verbatim>\<open>SELECT\<close> changes nothing\<close>
  "count_rows env name db =
     (case db name of
        Some T \<Rightarrow> Inr (int (length (rows T)))
      | None \<Rightarrow> count_query env name db)"

definition execute_count :: "'f env \<Rightarrow> string \<Rightarrow> 'f state \<Rightarrow> (error + int) \<times> 'f state" where
  \<comment> \<open>\<^verbatim>\<open>cur.execute(f"SELECT COUNT(*) FROM {table}")\<close>, then \<^verbatim>\<open>fetchone()[0]\<close>\<close>
  "execute_count env name s =
     (let s1 = logged (Execute (SelectCount name)) s
      in (count_rows env name (view s1), s1))"

definition execute_drop :: "string \<Rightarrow> 'f state \<Rightarrow> 'f state" where
  \<comment> \<open>\<^verbatim>\<open>DROP TABLE IF EXISTS name;\<close>\<close>
  "execute_drop name s =
     (let s1 = logged (Execute (DropTableIfExists name)) s
      in write_through (s1\<lparr>view := (view s1)(name := None)\<rparr>))"

definition execute_create_as ::
  "'f env \<Rightarrow> string \<Rightarrow> string \<Rightarrow> 'f state \<Rightarrow> (error + unit) \<times> 'f state" where
  \<comment> \<open>\<^verbatim>\<open>CREATE TABLE name AS query;\<close>: the engine evaluates the query on what the
      connection sees; a failing statement changes nothing\<close>
  "execute_create_as env name query s =
     (let s1 = logged (Execute (CreateTableAs name query)) s
      in if name \<in> dom (view s1)
         then (Inl (OperationalError (''table '' @ name @ '' already exists'')), s1)
         else (case run_query env query (view s1) of
                 Inl e \<Rightarrow> (Inl e, s1)
               | Inr T \<Rightarrow> (Inr (), write_through (s1\<lparr>view := (view s1)(name \<mapsto> T)\<rparr>))))"

subsection \<open>INSERT OR IGNORE\<close>

definition field :: "string list \<Rightarrow> 'f row \<Rightarrow> string \<Rightarrow> 'f sqlval" where
  "field cols r c = (case map_of (zip cols r) c of None \<Rightarrow> SqlNull | Some v \<Rightarrow> v)"

definition key_values :: "'f table \<Rightarrow> 'f sqlval list" where
  "key_values T =
     (case primary_key (schema T) of
        None \<Rightarrow> []
      | Some k \<Rightarrow> map (\<lambda>r. field (columns (schema T)) r k) (rows T))"

fun int_keys :: "'f sqlval list \<Rightarrow> int list" where
  "int_keys [] = []"
| "int_keys (SqlInt i # vs) = i # int_keys vs"
| "int_keys (v # vs) = int_keys vs"

text \<open>
  A NULL stored into an \<^verbatim>\<open>INTEGER PRIMARY KEY\<close> column becomes a fresh row id: 1 in an
  empty table, else one more than the largest id in use; when that is the largest 64-bit
  integer the engine tries ids of its own choice and may give up (\<open>pick_rowid\<close>).
\<close>

definition new_rowid :: "(int list \<Rightarrow> int option) \<Rightarrow> int list \<Rightarrow> int option" where
  "new_rowid pick ids =
     (if ids = [] then Some 1
      else if Max (set ids) < 9223372036854775807 then Some (Max (set ids) + 1)
      else pick ids)"

fun out_of_range :: "'f sqlval \<Rightarrow> bool" where
  "out_of_range (SqlInt n) = (n < - 9223372036854775808 \<or> 9223372036854775807 < n)"
| "out_of_range v = False"

definition set_field :: "string list \<Rightarrow> string \<Rightarrow> 'f sqlval \<Rightarrow> 'f row \<Rightarrow> 'f row" where
  "set_field cols c v r = map (\<lambda>(c', v'). if c' = c then v else v') (zip cols r)"

definition fk_ok :: "'f db \<Rightarrow> schema \<Rightarrow> 'f row \<Rightarrow> bool" where
  \<comment> \<open>every non-NULL referencing column finds its value among the parent's keys\<close>
  "fk_ok db sch r =
     (\<forall>(c, parent) \<in> set (references sch).
        field (columns sch) r c = SqlNull \<or>
        (case db parent of
           None \<Rightarrow> False
         | Some P \<Rightarrow> field (columns sch) r c \<in> set (key_values P)))"

definition store_row ::
  "bool \<Rightarrow> string \<Rightarrow> 'f table \<Rightarrow> 'f db \<Rightarrow> 'f row \<Rightarrow> error + 'f db" where
  \<comment> \<open>the row is written, then the foreign keys are checked at the end of the statement
      (so a row may refer to itself); a violation undoes the statement\<close>
  "store_row fk t T db r =
     (let db' = db(t \<mapsto> T\<lparr>rows := rows T @ [r]\<rparr>)
      in if fk \<and> \<not> fk_ok db' (schema T) r
         then Inl (IntegrityError ''FOREIGN KEY constraint failed'')
         else Inr db')"

definition insert_or_ignore ::
  "'f env \<Rightarrow> bool \<Rightarrow> string \<Rightarrow> string list \<Rightarrow> 'f db \<Rightarrow> 'f row \<Rightarrow> error + 'f db" where
  \<comment> \<open>one execution of \<^verbatim>\<open>INSERT OR IGNORE INTO t (cols) VALUES (?, ...)\<close> with the
      parameters \<open>p\<close>, one per column of \<open>cols\<close>: binding (an integer must fit 64 bits),
      NOT NULL (row skipped), the key (row skipped when the key is in use, a NULL key
      replaced by a fresh row id), then the write; \<^verbatim>\<open>OR IGNORE\<close> does not cover a
      foreign key\<close>
  "insert_or_ignore env fk t cols db p =
     (case db t of
        None \<Rightarrow> Inl (OperationalError (''no such table: '' @ t))
      | Some T \<Rightarrow>
          if \<exists>v \<in> set p. out_of_range v then Inl OverflowError
          else
            let cs = columns (schema T);
                r = map (field cols p) cs
            in if \<exists>c \<in> set (not_null (schema T)). field cs r c = SqlNull then Inr db
               else
                 (case primary_key (schema T) of
                    None \<Rightarrow> store_row fk t T db r
                  | Some k \<Rightarrow>
                      (case field cs r k of
                         SqlNull \<Rightarrow>
                           (case new_rowid (pick_rowid env) (int_keys (key_values T)) of
                              None \<Rightarrow> Inl (OperationalError ''database or disk is full'')
                            | Some i \<Rightarrow> store_row fk t T db (set_field cs k (SqlInt i) r))
                       | SqlInt i \<Rightarrow>
                           if SqlInt i \<in> set (key_values T) then Inr db
                           else store_row fk t T db r
                       | SqlReal x \<Rightarrow> Inl (IntegrityError ''datatype mismatch'')
                       | SqlText x \<Rightarrow> Inl (IntegrityError ''datatype mismatch''))))"

fun insert_rows ::
  "'f env \<Rightarrow> bool \<Rightarrow> string \<Rightarrow> string list \<Rightarrow> 'f db \<Rightarrow> 'f row list \<Rightarrow> error option \<times> 'f db"
  where
  "insert_rows env fk t cols db [] = (None, db)"
| "insert_rows env fk t cols db (p # ps) =
     (case insert_or_ignore env fk t cols db p of
        Inl e \<Rightarrow> (Some e, db)
      | Inr db' \<Rightarrow> insert_rows env fk t cols db' ps)"

definition prepare_insert :: "'f state \<Rightarrow> string \<Rightarrow> string list \<Rightarrow> error option" where
  \<comment> \<open>compiling the statement: the table and its columns must exist and, with foreign
      keys on, so must every parent table with its key \<^verbatim>\<open>ID\<close>\<close>
  "prepare_insert s t cols =
     (case view s t of
        None \<Rightarrow> Some (OperationalError (''no such table: '' @ t))
      | Some T \<Rightarrow>
          if \<not> set cols \<subseteq> set (columns (schema T))
          then Some (OperationalError (''table '' @ t @ '' has no such column''))
          else if foreign_keys s \<and>
                  (\<exists>(c, parent) \<in> set (references (schema T)).
                     case view s parent of
                       None \<Rightarrow> True
                     | Some P \<Rightarrow> primary_key (schema P) \<noteq> Some ''ID'')
          then Some (OperationalError ''foreign key mismatch'')
          else None)"

definition executemany ::
  "'f env \<Rightarrow> string \<Rightarrow> string list \<Rightarrow> 'f row list \<Rightarrow> 'f state \<Rightarrow> (error + unit) \<times> 'f state"
  where
  \<comment> \<open>\<^verbatim>\<open>cur.executemany(q, params)\<close>: the statement is compiled, a transaction is opened,
      and the statement runs once per parameter tuple; the first error stops the loop and
      leaves the earlier rows pending\<close>
  "executemany env t cols params s =
     (let s1 = logged (ExecuteMany (InsertOrIgnore t cols) (length params)) s
      in case prepare_insert s1 t cols of
           Some e \<Rightarrow> (Inl e, s1)
         | None \<Rightarrow>
             (case insert_rows env (foreign_keys s1) t cols (view s1) params of
                (Some e, db') \<Rightarrow> (Inl e, s1\<lparr>view := db', in_txn := True\<rparr>)
              | (None, db') \<Rightarrow> (Inr (), s1\<lparr>view := db', in_txn := True\<rparr>)))"

section \<open>The loader\<close>

definition DATA_FILES :: "string \<rightharpoonup> string" where
  "DATA_FILES =
     [''categories'' \<mapsto> ''categories.csv'',
      ''products'' \<mapsto> ''products.csv'',
      ''customers'' \<mapsto> ''customers.csv'',
      ''orders'' \<mapsto> ''orders.csv'',
      ''reviews'' \<mapsto> ''reviews.csv'']"

subsection \<open>create_tables\<close>

definition categories_schema :: schema where
  "categories_schema =
     \<lparr>columns = [''ID'', ''category_name'', ''parent_category_id''],
      primary_key = Some ''ID'',
      not_null = [''category_name''],
      references = [(''parent_category_id'', ''categories'')]\<rparr>"

definition products_schema :: schema where
  "products_schema =
     \<lparr>columns = [''ID'', ''name'', ''category'', ''price'', ''stock_quantity''],
      primary_key = Some ''ID'',
      not_null = [''name''],
      references = [(''category'', ''categories'')]\<rparr>"

definition customers_schema :: schema where
  "customers_schema =
     \<lparr>columns = [''ID'', ''name'', ''email'', ''registration_date''],
      primary_key = Some ''ID'',
      not_null = [''name''],
      references = []\<rparr>"

definition orders_schema :: schema where
  "orders_schema =
     \<lparr>columns = [''ID'', ''customer_id'', ''product_id'', ''order_date'', ''quantity'',
                 ''total_price''],
      primary_key = Some ''ID'',
      not_null = [],
      references = [(''customer_id'', ''customers''), (''product_id'', ''products'')]\<rparr>"

definition reviews_schema :: schema where
  "reviews_schema =
     \<lparr>columns = [''ID'', ''product_id'', ''customer_id'', ''rating'', ''review_text'',
                 ''review_date''],
      primary_key = Some ''ID'',
      not_null = [],
      references = [(''product_id'', ''products''), (''customer_id'', ''customers'')]\<rparr>"

definition create_tables :: "'f state \<Rightarrow> 'f state" where
  "create_tables s =
     commit
       (execute_create_table ''reviews'' reviews_schema
         (execute_create_table ''orders'' orders_schema
           (execute_create_table ''customers'' customers_schema
             (execute_create_table ''products'' products_schema
               (execute_create_table ''categories'' categories_schema
                 (execute_pragma s))))))"

subsection \<open>insert_csv\<close>

text \<open>
  The parameter tuple of one CSV line, per table. The conversions run in the order in
  which Python evaluates them: for \<^verbatim>\<open>categories\<close> the parent id is converted before
  the tuple is built, elsewhere the tuple's components from left to right.
\<close>

definition categories_params :: "'f env \<Rightarrow> csv_row \<Rightarrow> error + 'f row" where
  "categories_params env r =
     bindE (to_int (py_int env) (r ''parent_category_id'')) (\<lambda>pid.
     bindE (to_int (py_int env) (r ''ID'')) (\<lambda>i.
     Inr [bind_int i, bind_str (r ''category_name''), bind_int pid]))"

definition products_params :: "'f env \<Rightarrow> csv_row \<Rightarrow> error + 'f row" where
  "products_params env r =
     bindE (to_int (py_int env) (r ''ID'')) (\<lambda>i.
     bindE (to_int (py_int env) (r ''category'')) (\<lambda>c.
     bindE (to_float (py_float env) (r ''price'')) (\<lambda>p.
     bindE (to_int (py_int env) (r ''stock_quantity'')) (\<lambda>q.
     Inr [bind_int i, bind_str (r ''name''), bind_int c, bind_float p, bind_int q]))))"

definition customers_params :: "'f env \<Rightarrow> csv_row \<Rightarrow> error + 'f row" where
  "customers_params env r =
     bindE (to_int (py_int env) (r ''ID'')) (\<lambda>i.
     Inr [bind_int i, bind_str (r ''name''), bind_str (r ''email''),
          bind_str (r ''registration_date'')])"

definition orders_params :: "'f env \<Rightarrow> csv_row \<Rightarrow> error + 'f row" where
  "orders_params env r =
     bindE (to_int (py_int env) (r ''ID'')) (\<lambda>i.
     bindE (to_int (py_int env) (r ''customer_id'')) (\<lambda>c.
     bindE (to_int (py_int env) (r ''product_id'')) (\<lambda>p.
     bindE (to_int (py_int env) (r ''quantity'')) (\<lambda>q.
     bindE (to_float (py_float env) (r ''total_price'')) (\<lambda>t.
     Inr [bind_int i, bind_int c, bind_int p, bind_str (r ''order_date''), bind_int q,
          bind_float t])))))"

definition reviews_params :: "'f env \<Rightarrow> csv_row \<Rightarrow> error + 'f row" where
  "reviews_params env r =
     bindE (to_int (py_int env) (r ''ID'')) (\<lambda>i.
     bindE (to_int (py_int env) (r ''product_id'')) (\<lambda>p.
     bindE (to_int (py_int env) (r ''customer_id'')) (\<lambda>c.
     bindE (to_int (py_int env) (r ''rating'')) (\<lambda>g.
     Inr [bind_int i, bind_int p, bind_int c, bind_int g, bind_str (r ''review_text''),
          bind_str (r ''review_date'')]))))"

text \<open>\<^verbatim>\<open>params = []; for r in rows: params.append(...)\<close>: the first error ends the loop.\<close>

fun params_loop :: "(csv_row \<Rightarrow> error + 'f row) \<Rightarrow> csv_row list \<Rightarrow> error + 'f row list" where
  "params_loop f [] = Inr []"
| "params_loop f (r # rs) =
     bindE (f r) (\<lambda>p. bindE (params_loop f rs) (\<lambda>ps. Inr (p # ps)))"

text \<open>The \<^verbatim>\<open>if table == ... elif ... else raise\<close> chain: the statement and its parameters.\<close>

definition build_statement ::
  "'f env \<Rightarrow> string \<Rightarrow> csv_row list \<Rightarrow> error + (string list \<times> 'f row list)" where
  "build_statement env table rs =
     (if table = ''categories'' then
        bindE (params_loop (categories_params env) rs) (\<lambda>params.
          Inr ([''ID'', ''category_name'', ''parent_category_id''], params))
      else if table = ''products'' then
        bindE (params_loop (products_params env) rs) (\<lambda>params.
          Inr ([''ID'', ''name'', ''category'', ''price'', ''stock_quantity''], params))
      else if table = ''customers'' then
        bindE (params_loop (customers_params env) rs) (\<lambda>params.
          Inr ([''ID'', ''name'', ''email'', ''registration_date''], params))
      else if table = ''orders'' then
        bindE (params_loop (orders_params env) rs) (\<lambda>params.
          Inr ([''ID'', ''customer_id'', ''product_id'', ''order_date'', ''quantity'',
                ''total_price''], params))
      else if table = ''reviews'' then
        bindE (params_loop (reviews_params env) rs) (\<lambda>params.
          Inr ([''ID'', ''product_id'', ''customer_id'', ''rating'', ''review_text'',
                ''review_date''], params))
      else Inl (UnknownTable table))"

definition warning :: "string \<Rightarrow> string \<Rightarrow> string" where
  "warning file_path table =
     ''Warning: '' @ file_path @ '' not found, skipping '' @ table @ ''.''"

definition insert_csv ::
  "'f env \<Rightarrow> (string \<rightharpoonup> csv_row list) \<Rightarrow> string \<Rightarrow> string \<Rightarrow> 'f state
     \<Rightarrow> (error + int) \<times> 'f state" where
  "insert_csv env files table file_path s =
     (case execute_count env table s of
        (Inl e, s1) \<Rightarrow> (Inl e, s1)
      | (Inr count_before, s1) \<Rightarrow>
          (case files file_path of
             None \<Rightarrow> (Inr 0, s1\<lparr>stdout := stdout s1 @ [warning file_path table]\<rparr>)
           | Some rs \<Rightarrow>
               (case build_statement env table rs of
                  Inl e \<Rightarrow> (Inl e, s1)
                | Inr (cols, params) \<Rightarrow>
                    (case executemany env table cols params s1 of
                       (Inl e, s2) \<Rightarrow> (Inl e, s2)
                     | (Inr u, s2) \<Rightarrow>
                         (case execute_count env table (commit s2) of
                            (Inl e, s3) \<Rightarrow> (Inl e, s3)
                          | (Inr count_after, s3) \<Rightarrow> (Inr (count_after - count_before), s3))))))"

subsection \<open>main\<close>

fun digits :: "nat \<Rightarrow> string" where
  "digits n =
     (if n < 10 then [''0123456789'' ! n]
      else digits (n div 10) @ [''0123456789'' ! (n mod 10)])"

declare digits.simps [simp del]

definition str_int :: "int \<Rightarrow> string" where
  "str_int i = (if i < 0 then CHR ''-'' # digits (nat (- i)) else digits (nat i))"

definition summary_line :: "string \<times> int \<Rightarrow> string" where
  "summary_line tc = ''- '' @ fst tc @ '': '' @ str_int (snd tc) @ '' rows inserted''"

text \<open>
  The loop over \<^verbatim>\<open>order\<close>; \<open>results\<close> is the dictionary in insertion order. An error
  leaves the loop with the state reached.
\<close>

fun ingest ::
  "'f env \<Rightarrow> (string \<rightharpoonup> csv_row list) \<Rightarrow> string list \<Rightarrow> (string \<times> int) list \<Rightarrow> 'f state
     \<Rightarrow> (error + (string \<times> int) list) \<times> 'f state" where
  "ingest env files [] results s = (Inr results, s)"
| "ingest env files (t # ts) results s =
     (case DATA_FILES t of
        None \<Rightarrow> (Inl TypeError, s)
      | Some file_name \<Rightarrow>
          (case insert_csv env files t file_name s of
             (Inl e, s1) \<Rightarrow> (Inl e, s1)
           | (Inr inserted, s1) \<Rightarrow>
               ingest env files ts (AList.update t inserted results) s1))"

definition order :: "string list" where
  "order = [''categories'', ''products'', ''customers'', ''orders'', ''reviews'']"

definition loader_body ::
  "'f env \<Rightarrow> (string \<rightharpoonup> csv_row list) \<Rightarrow> 'f state \<Rightarrow> (error + unit) \<times> 'f state" where
  "loader_body env files conn =
     (case ingest env files order [] (create_tables conn) of
        (Inl e, s) \<Rightarrow> (Inl e, s)
      | (Inr results, s) \<Rightarrow>
          (Inr (), s\<lparr>stdout := stdout s @ ''Insertion summary:'' # map summary_line results\<rparr>))"

definition start :: "'f db option \<Rightarrow> 'f state" where
  "start d = \<lparr>disk = d, view = Map.empty, in_txn = False, foreign_keys = False,
              trace = [], stdout = []\<rparr>"

definition insert_data_main :: "'f env \<Rightarrow> 'f db option \<Rightarrow> (string \<rightharpoonup> csv_row list) \<Rightarrow> (error + unit) \<times> 'f state"
  where
  \<comment> \<open>\<^verbatim>\<open>try: ... finally: conn.close()\<close>: the connection is closed on both outcomes\<close>
  "insert_data_main env d files =
     (let conn = connect (start d);
          (r, s) = loader_body env files conn
      in (r, close s))"

section \<open>The report materializer\<close>

text \<open>
  \<^verbatim>\<open>str.strip()\<close> removes the white space at both ends. A \<open>char\<close> is a code point
  below 256; Python's white space there is 9 to 13, 28 to 32, 133 and 160.
\<close>

definition is_space :: "char \<Rightarrow> bool" where
  "is_space c =
     (let n = (of_char c :: nat)
      in (9 \<le> n \<and> n \<le> 13) \<or> (28 \<le> n \<and> n \<le> 32) \<or> n = 133 \<or> n = 160)"

definition strip :: "string \<Rightarrow> string" where
  "strip s = rev (dropWhile is_space (rev (dropWhile is_space s)))"

definition endswith_semicolon :: "string \<Rightarrow> bool" where
  "endswith_semicolon s = (s \<noteq> [] \<and> last s = CHR '';'')"

definition read_query :: "string \<Rightarrow> string" where
  \<comment> \<open>\<^verbatim>\<open>sql_text = read_text().strip(); if sql_text.endswith(";"): sql_text = sql_text[:-1]\<close>\<close>
  "read_query text =
     (let sql_text = strip text
      in if endswith_semicolon sql_text then butlast sql_text else sql_text)"

text \<open>
  The body of the \<^verbatim>\<open>try\<close> block. The statement the code sends is
  \<^verbatim>\<open>f"CREATE TABLE report_output AS {sql_text};"\<close>; the parameter \<open>run_query\<close> is what
  the engine makes of the text put after \<^verbatim>\<open>AS\<close>, an error for a text that does not
  make the statement a valid one.
\<close>

definition report_body :: "'f env \<Rightarrow> string \<Rightarrow> 'f state \<Rightarrow> (error + unit) \<times> 'f state" where
  "report_body env sql_text conn =
     (let s1 = execute_pragma conn;
          s2 = execute_drop ''report_output'' s1
      in case execute_create_as env ''report_output'' sql_text s2 of
           (Inl e, s3) \<Rightarrow> (Inl e, s3)
         | (Inr u, s3) \<Rightarrow>
             (case execute_count env ''report_output'' (commit s3) of
                (Inl e, s4) \<Rightarrow> (Inl e, s4)
              | (Inr count, s4) \<Rightarrow>
                  (Inr (),
                   s4\<lparr>stdout := stdout s4 @
                        [''Inserted '' @ str_int count @ '' rows into report_output'']\<rparr>)))"

definition run_report_main ::
  "'f env \<Rightarrow> 'f db option \<Rightarrow> string option \<Rightarrow> (error + unit) \<times> 'f state" where
  "run_report_main env d sql_file =
     (case d of
        None \<Rightarrow> (Inr (), (start d)\<lparr>stdout := [''Database not found: ecom.db'']\<rparr>)
      | Some db \<Rightarrow>
          (case sql_file of
             None \<Rightarrow> (Inr (), (start d)\<lparr>stdout := [''SQL file not found: report.sql'']\<rparr>)
           | Some text \<Rightarrow>
               (let sql_text = read_query text;
                    conn = connect (start d);
                    (r, s) = report_body env sql_text conn
                in (r, close s))))"

section \<open>An instance of the parameters\<close>

text \<open>
  For the examples: a parser that reads a string of ASCII digits (on these \<^verbatim>\<open>int\<close> and
  \<^verbatim>\<open>float\<close> return the same number, a float being written here as the integer it
  equals) and rejects the strings used below that Python rejects too; an engine that
  never chooses a row id by itself, answers queries of the one form
  \<^verbatim>\<open>SELECT * FROM name\<close>, giving the rows of the table under its column names, and
  counts the rows for a name that is a table's name up to upper-case ASCII letters (the
  tables of the scripts have lower-case names), reporting the other names used below as
  no table.
\<close>

definition is_digit :: "char \<Rightarrow> bool" where
  "is_digit c = (48 \<le> (of_char c :: nat) \<and> (of_char c :: nat) \<le> 57)"

definition digits_int :: "string \<Rightarrow> int option" where
  "digits_int s =
     (if s \<noteq> [] \<and> list_all is_digit s
      then Some (foldl (\<lambda>a c. 10 * a + (int (of_char c) - 48)) 0 s)
      else None)"

definition select_all :: "string \<Rightarrow> 'f db \<Rightarrow> error + 'f table" where
  "select_all q db =
     (if take 14 q = ''SELECT * FROM '' then
        (case db (drop 14 q) of
           None \<Rightarrow> Inl (OperationalError (''no such table: '' @ drop 14 q))
         | Some T \<Rightarrow>
             Inr \<lparr>schema = \<lparr>columns = columns (schema T), primary_key = None,
                             not_null = [], references = []\<rparr>,
                  rows = rows T\<rparr>)
      else Inl (OperationalError ''syntax error''))"

definition lower :: "char \<Rightarrow> char" where
  "lower c =
     (case map_of (zip ''ABCDEFGHIJKLMNOPQRSTUVWXYZ'' ''abcdefghijklmnopqrstuvwxyz'') c of
        None \<Rightarrow> c
      | Some l \<Rightarrow> l)"

definition count_folded :: "string \<Rightarrow> 'f db \<Rightarrow> error + int" where
  "count_folded name db =
     (case db (map lower name) of
        None \<Rightarrow> Inl (OperationalError (''no such table: '' @ name))
      | Some T \<Rightarrow> Inr (int (length (rows T))))"

definition example_env :: "int env" where
  "example_env =
     \<lparr>py_int = digits_int, py_float = digits_int, pick_rowid = (\<lambda>ids. None),
      run_query = select_all, count_query = count_folded\<rparr>"

definition example_report :: "int table" where
  "example_report =
     \<lparr>schema = \<lparr>columns = [''ID'', ''name''], primary_key = None, not_null = [],
                   references = []\<rparr>,
      rows = [[SqlInt 10, SqlText ''Novel'']]\<rparr>"

definition example_products :: "int table" where
  "example_products =
     \<lparr>schema = products_schema,
      rows = [[SqlInt 10, SqlText ''Novel'', SqlNull, SqlReal 9, SqlInt 5]]\<rparr>"

definition example_store :: "int db" where
  "example_store = [''report_output'' \<mapsto> example_report, ''products'' \<mapsto> example_products]"

definition bad_products :: "csv_row list" where
  "bad_products =
     [[''ID'' \<mapsto> ''10'', ''name'' \<mapsto> ''Novel'', ''category'' \<mapsto> ''1'',
       ''price'' \<mapsto> ''9'', ''stock_quantity'' \<mapsto> ''5''],
      [''ID'' \<mapsto> ''11'', ''name'' \<mapsto> ''Atlas'', ''category'' \<mapsto> ''1'',
       ''price'' \<mapsto> ''cheap'', ''stock_quantity'' \<mapsto> '''']]"

definition example_categories :: "csv_row list" where
  "example_categories =
     [[''ID'' \<mapsto> ''1'', ''category_name'' \<mapsto> ''Books'', ''parent_category_id'' \<mapsto> ''''],
      [''ID'' \<mapsto> ''2'', ''category_name'' \<mapsto> ''Novels'', ''parent_category_id'' \<mapsto> ''1'']]"

definition unkeyed_categories :: "csv_row list" where
  "unkeyed_categories = [[''ID'' \<mapsto> '''', ''category_name'' \<mapsto> ''Books'']]"

definition fresh_store :: "int state" where
  "fresh_store = create_tables (connect (start None))"

definition blank_price_line :: csv_row where
  "blank_price_line =
     [''ID'' \<mapsto> ''10'', ''name'' \<mapsto> ''Novel'', ''category'' \<mapsto> '''', ''price'' \<mapsto> '''']"

definition example_files :: "string \<rightharpoonup> csv_row list" where
  "example_files =
     [''categories.csv'' \<mapsto> example_categories,
      ''products.csv'' \<mapsto>
        [[''ID'' \<mapsto> ''10'', ''name'' \<mapsto> ''Novel'', ''category'' \<mapsto> ''1'',
          ''price'' \<mapsto> ''9'', ''stock_quantity'' \<mapsto> ''5'']]]"

section \<open>Vocabulary of the properties\<close>

text \<open>
  The fields of a CSV line that \<^verbatim>\<open>insert_csv\<close> passes through \<^verbatim>\<open>to_int\<close> and
  through \<^verbatim>\<open>to_float\<close>, per table; a line is malformed when one of them holds a
  non-empty string that the builtin rejects.
\<close>

definition int_fields :: "string \<Rightarrow> string list" where
  "int_fields table =
     (if table = ''categories'' then [''parent_category_id'', ''ID'']
      else if table = ''products'' then [''ID'', ''category'', ''stock_quantity'']
      else if table = ''customers'' then [''ID'']
      else if table = ''orders'' then [''ID'', ''customer_id'', ''product_id'', ''quantity'']
      else if table = ''reviews'' then [''ID'', ''product_id'', ''customer_id'', ''rating'']
      else [])"

definition float_fields :: "string \<Rightarrow> string list" where
  "float_fields table =
     (if table = ''products'' then [''price'']
      else if table = ''orders'' then [''total_price'']
      else [])"

definition malformed :: "'f env \<Rightarrow> string \<Rightarrow> csv_row \<Rightarrow> bool" where
  "malformed env table r =
     ((\<exists>c \<in> set (int_fields table).
         case r c of None \<Rightarrow> False | Some v \<Rightarrow> v \<noteq> '''' \<and> py_int env v = None) \<or>
      (\<exists>c \<in> set (float_fields table).
         case r c of None \<Rightarrow> False | Some v \<Rightarrow> v \<noteq> '''' \<and> py_float env v = None))"

fun conversion_error :: "error \<Rightarrow> bool" where
  "conversion_error (InvalidIntLiteral v) = True"
| "conversion_error (InvalidFloatLiteral v) = True"
| "conversion_error e = False"

text \<open>The branch of \<^verbatim>\<open>insert_csv\<close> and the schema of \<^verbatim>\<open>create_tables\<close> by table name.\<close>

definition table_params :: "'f env \<Rightarrow> string \<Rightarrow> csv_row \<Rightarrow> error + 'f row" where
  "table_params env table =
     (if table = ''categories'' then categories_params env
      else if table = ''products'' then products_params env
      else if table = ''customers'' then customers_params env
      else if table = ''orders'' then orders_params env
      else reviews_params env)"

definition table_schema :: "string \<Rightarrow> schema" where
  "table_schema table =
     (if table = ''categories'' then categories_schema
      else if table = ''products'' then products_schema
      else if table = ''customers'' then customers_schema
      else if table = ''orders'' then orders_schema
      else reviews_schema)"

definition blank :: "string option \<Rightarrow> bool" where
  \<comment> \<open>a field that is absent or the empty string\<close>
  "blank v = (v = None \<or> v = Some '''')"

text \<open>
  For one execution of the insert statement: the row the statement would write, and when
  the statement writes nothing (a NOT NULL column would be NULL, or the key is in use).
  A table extends another when it has the same schema and the same rows followed by more.
\<close>

definition bound_row :: "'f table \<Rightarrow> string list \<Rightarrow> 'f row \<Rightarrow> 'f row" where
  "bound_row T cols p = map (field cols p) (columns (schema T))"

definition absorbed :: "'f table \<Rightarrow> string list \<Rightarrow> 'f row \<Rightarrow> bool" where
  "absorbed T cols p =
     ((\<forall>v \<in> set p. \<not> out_of_range v) \<and>
      ((\<exists>c \<in> set (not_null (schema T)).
          field (columns (schema T)) (bound_row T cols p) c = SqlNull) \<or>
       (\<exists>k i. primary_key (schema T) = Some k \<and>
          field (columns (schema T)) (bound_row T cols p) k = SqlInt i \<and>
          SqlInt i \<in> set (key_values T))))"

definition extends :: "'f table \<Rightarrow> 'f table \<Rightarrow> bool" where
  "extends T T' = (schema T' = schema T \<and> (\<exists>more. rows T' = rows T @ more))"

definition statements :: "action list \<Rightarrow> bool" where
  \<comment> \<open>calls on an open connection: none opens or closes one\<close>
  "statements as = (Connect \<notin> set as \<and> Close \<notin> set as)"

section \<open>The report materializer: properties\<close>

lemma read_query_semicolon: "strip text = q @ '';'' \<Longrightarrow> read_query text = q"
  by (simp add: read_query_def endswith_semicolon_def)

lemma read_query_plain: "\<not> endswith_semicolon (strip text) \<Longrightarrow> read_query text = strip text"
  by (simp add: read_query_def)

lemma connect_start:
  "view (connect (start (Some db))) = db"
  "disk (connect (start (Some db))) = Some db"
  "in_txn (connect (start d)) = False"
  "foreign_keys (connect (start d)) = False"
  "trace (connect (start d)) = [Connect]"
  "stdout (connect (start d)) = []"
  by (simp_all add: connect_def start_def persisted_def)

lemma report_body_failure:
  assumes "run_query env q ((view c)(''report_output'' := None)) = Inl e" "\<not> in_txn c"
  shows "report_body env q c =
          (Inl e, c\<lparr>disk := Some ((view c)(''report_output'' := None)),
                   view := (view c)(''report_output'' := None),
                   foreign_keys := True,
                   trace := trace c @ [Execute PragmaForeignKeysOn,
                     Execute (DropTableIfExists ''report_output''),
                     Execute (CreateTableAs ''report_output'' q)]\<rparr>)"
  using assms
  by (simp add: report_body_def execute_pragma_def execute_drop_def execute_create_as_def
      logged_def write_through_def Let_def)

lemma report_body_success:
  assumes "run_query env q ((view c)(''report_output'' := None)) = Inr T" "\<not> in_txn c"
  shows "report_body env q c =
          (Inr (), c\<lparr>disk := Some ((view c)(''report_output'' \<mapsto> T)),
                   view := (view c)(''report_output'' \<mapsto> T),
                   foreign_keys := True,
                   trace := trace c @ [Execute PragmaForeignKeysOn,
                     Execute (DropTableIfExists ''report_output''),
                     Execute (CreateTableAs ''report_output'' q),
                     Commit,
                     Execute (SelectCount ''report_output'')],
                   stdout := stdout c @
                     [''Inserted '' @ str_int (int (length (rows T))) @
                      '' rows into report_output'']\<rparr>)"
  using assms
  by (simp add: report_body_def execute_pragma_def execute_drop_def execute_create_as_def
      execute_count_def count_rows_def commit_def logged_def write_through_def Let_def)

lemma example_query:
  "read_query ''SELECT * FROM report_output; '' = ''SELECT * FROM report_output''"
  by (simp add: read_query_def strip_def is_space_def endswith_semicolon_def)

text \<open>
  C7. When the store file is absent, or the query file is absent, the materializer
  prints one message and returns normally: no connection is opened, no statement is
  executed, and the store file is as it was (absent, if it was absent).
\<close>

theorem report_missing_input:
  assumes "d = None \<or> sql_file = None"
  shows "fst (run_report_main env d sql_file) = Inr () \<and>
         trace (snd (run_report_main env d sql_file)) = [] \<and>
         disk (snd (run_report_main env d sql_file)) = d \<and>
         stdout (snd (run_report_main env d sql_file)) =
           [if d = None then ''Database not found: ecom.db''
            else ''SQL file not found: report.sql'']"
  using assms by (auto simp: run_report_main_def start_def split: option.splits)

theorem report_missing_input_witness:
  "fst (run_report_main example_env (Some [''report_output'' \<mapsto> example_report]) None) =
     Inr () \<and>
   trace (snd (run_report_main example_env
     (Some [''report_output'' \<mapsto> example_report]) None)) = [] \<and>
   disk (snd (run_report_main example_env
     (Some [''report_output'' \<mapsto> example_report]) None)) =
     Some [''report_output'' \<mapsto> example_report] \<and>
   stdout (snd (run_report_main example_env
     (Some [''report_output'' \<mapsto> example_report]) None)) =
     [''SQL file not found: report.sql'']"
  using report_missing_input
    [of "Some [''report_output'' \<mapsto> example_report]" None example_env]
  by simp

text \<open>
  C2. The materializer drops \<^verbatim>\<open>report_output\<close> before it creates it: the statements on
  the connection are the pragma, the drop, then the create, and the engine evaluates the
  query on the store without the old table. When the create statement fails, its error
  is the result of the run, the connection is closed, and the store file holds no table
  \<^verbatim>\<open>report_output\<close>.
\<close>

theorem report_create_failure:
  assumes "run_query env (read_query text) (db(''report_output'' := None)) = Inl e"
  shows "fst (run_report_main env (Some db) (Some text)) = Inl e \<and>
         disk (snd (run_report_main env (Some db) (Some text))) =
           Some (db(''report_output'' := None)) \<and>
         trace (snd (run_report_main env (Some db) (Some text))) =
           [Connect, Execute PragmaForeignKeysOn,
            Execute (DropTableIfExists ''report_output''),
            Execute (CreateTableAs ''report_output'' (read_query text)), Close] \<and>
         stdout (snd (run_report_main env (Some db) (Some text))) = []"
  using report_body_failure [of env "read_query text" "connect (start (Some db))" e] assms
  by (simp add: connect_start run_report_main_def Let_def close_def persisted_def)

theorem report_create_failure_witness:
  "run_query example_env (read_query ''SELECT * FROM report_output; '')
     ([''report_output'' \<mapsto> example_report](''report_output'' := None)) =
     Inl (OperationalError ''no such table: report_output'') \<and>
   fst (run_report_main example_env (Some [''report_output'' \<mapsto> example_report])
         (Some ''SELECT * FROM report_output; '')) =
     Inl (OperationalError ''no such table: report_output'') \<and>
   disk (snd (run_report_main example_env (Some [''report_output'' \<mapsto> example_report])
         (Some ''SELECT * FROM report_output; ''))) = Some Map.empty"
  using report_create_failure [of example_env "''SELECT * FROM report_output; ''"
      "[''report_output'' \<mapsto> example_report]"
      "OperationalError ''no such table: report_output''"]
  by (simp add: example_query example_env_def select_all_def)

text \<open>
  C5. On a run whose create statement succeeds: the query handed to the engine is the
  stripped file content without one trailing \<^verbatim>\<open>;\<close>, the old \<^verbatim>\<open>report_output\<close> is
  dropped first, the store file then holds under \<^verbatim>\<open>report_output\<close> exactly the table
  the engine computed for the query, and the count printed is the number of its rows.
\<close>

theorem report_success:
  assumes "run_query env (read_query text) (db(''report_output'' := None)) = Inr T"
  shows "fst (run_report_main env (Some db) (Some text)) = Inr () \<and>
         disk (snd (run_report_main env (Some db) (Some text))) =
           Some (db(''report_output'' \<mapsto> T)) \<and>
         stdout (snd (run_report_main env (Some db) (Some text))) =
           [''Inserted '' @ str_int (int (length (rows T))) @ '' rows into report_output''] \<and>
         trace (snd (run_report_main env (Some db) (Some text))) =
           [Connect, Execute PragmaForeignKeysOn,
            Execute (DropTableIfExists ''report_output''),
            Execute (CreateTableAs ''report_output'' (read_query text)),
            Commit, Execute (SelectCount ''report_output''), Close] \<and>
         (\<forall>q. strip text = q @ '';'' \<longrightarrow> read_query text = q) \<and>
         (\<not> endswith_semicolon (strip text) \<longrightarrow> read_query text = strip text)"
  using report_body_success [of env "read_query text" "connect (start (Some db))" T] assms
  by (simp add: connect_start run_report_main_def Let_def close_def persisted_def
      read_query_semicolon read_query_plain)

theorem report_success_witness:
  "run_query example_env (read_query ''SELECT * FROM products;'')
     (example_store(''report_output'' := None)) =
     Inr \<lparr>schema = \<lparr>columns = columns products_schema, primary_key = None,
                     not_null = [], references = []\<rparr>,
          rows = rows example_products\<rparr> \<and>
   fst (run_report_main example_env (Some example_store)
         (Some ''SELECT * FROM products;'')) = Inr () \<and>
   stdout (snd (run_report_main example_env (Some example_store)
         (Some ''SELECT * FROM products;''))) = [''Inserted 1 rows into report_output'']"
  using report_success [of example_env "''SELECT * FROM products;''" example_store
     "\<lparr>schema = \<lparr>columns = columns products_schema, primary_key = None,
                   not_null = [], references = []\<rparr>,
        rows = rows example_products\<rparr>"]
  by (simp add: read_query_def strip_def is_space_def endswith_semicolon_def
      example_env_def select_all_def str_int_def digits.simps example_store_def
      example_products_def)

section \<open>The loader: properties\<close>

lemma bindE_simps [simp]: "bindE (Inl e) f = Inl e" "bindE (Inr x) f = f x"
  by (simp_all add: bindE_def)

lemma bindE_Inl: "bindE m f = Inl e \<Longrightarrow> m = Inl e \<or> (\<exists>x. m = Inr x \<and> f x = Inl e)"
  by (cases m) simp_all

lemma bindE_Inr: "bindE m f = Inr y \<Longrightarrow> \<exists>x. m = Inr x \<and> f x = Inr y"
  by (cases m) simp_all

subsection \<open>What each call does to the state\<close>

lemma logged_simps [simp]:
  "view (logged a s) = view s"
  "disk (logged a s) = disk s"
  "in_txn (logged a s) = in_txn s"
  "foreign_keys (logged a s) = foreign_keys s"
  "stdout (logged a s) = stdout s"
  "trace (logged a s) = trace s @ [a]"
  by (simp_all add: logged_def)

lemma commit_simps [simp]:
  "view (commit s) = view s"
  "disk (commit s) = Some (view s)"
  "in_txn (commit s) = False"
  "foreign_keys (commit s) = foreign_keys s"
  "stdout (commit s) = stdout s"
  "trace (commit s) = trace s @ [Commit]"
  by (simp_all add: commit_def)

lemma execute_pragma_simps [simp]:
  "view (execute_pragma s) = view s"
  "disk (execute_pragma s) = disk s"
  "in_txn (execute_pragma s) = in_txn s"
  "foreign_keys (execute_pragma s) = (in_txn s \<longrightarrow> foreign_keys s)"
  "stdout (execute_pragma s) = stdout s"
  "trace (execute_pragma s) = trace s @ [Execute PragmaForeignKeysOn]"
  by (simp_all add: execute_pragma_def Let_def)

lemma execute_create_table_simps [simp]:
  "view (execute_create_table n sch s) =
     (if n \<in> dom (view s) then view s else (view s)(n \<mapsto> \<lparr>schema = sch, rows = []\<rparr>))"
  "in_txn (execute_create_table n sch s) = in_txn s"
  "foreign_keys (execute_create_table n sch s) = foreign_keys s"
  "stdout (execute_create_table n sch s) = stdout s"
  "trace (execute_create_table n sch s) = trace s @ [Execute (CreateTableIfNotExists n sch)]"
  by (simp_all add: execute_create_table_def write_through_def Let_def)

lemma execute_count_simps [simp]:
  "snd (execute_count env t s) = logged (Execute (SelectCount t)) s"
  "fst (execute_count env t s) = count_rows env t (view s)"
  by (simp_all add: execute_count_def Let_def)

lemma count_rows_table: "db t = Some T \<Longrightarrow> count_rows env t db = Inr (int (length (rows T)))"
  by (simp add: count_rows_def)

lemma create_tables_simps [simp]:
  "in_txn (create_tables s) = False"
  "foreign_keys (create_tables s) = (in_txn s \<longrightarrow> foreign_keys s)"
  "stdout (create_tables s) = stdout s"
  "disk (create_tables s) = Some (view (create_tables s))"
  by (simp_all add: create_tables_def)

lemma create_table_lookup:
  "view (execute_create_table n sch s) t =
     (if t = n \<and> view s n = None then Some \<lparr>schema = sch, rows = []\<rparr> else view s t)"
  by (auto simp: domIff)

lemma create_tables_view:
  "view (create_tables s) t =
     (if t \<in> set order \<and> view s t = None then Some \<lparr>schema = table_schema t, rows = []\<rparr>
      else view s t)"
proof -
  consider "t = ''categories''" | "t = ''products''" | "t = ''customers''" | "t = ''orders''"
    | "t = ''reviews''" | "t \<notin> set order"
    by (auto simp: order_def)
  then show ?thesis
  proof cases
    case 6
    then show ?thesis
      unfolding create_tables_def commit_simps create_table_lookup execute_pragma_simps
      by (simp add: order_def)
  qed (simp_all only: create_tables_def commit_simps create_table_lookup execute_pragma_simps,
       simp_all add: order_def table_schema_def)
qed

lemma create_tables_has_table: "t \<in> set order \<Longrightarrow> view (create_tables s) t \<noteq> None"
  by (simp add: create_tables_view)

subsection \<open>A missing file, a name that is no entity\<close>

lemma insert_csv_missing_file:
  assumes "view s t = Some T" "files path = None"
  shows "insert_csv env files t path s =
           (Inr 0, s\<lparr>trace := trace s @ [Execute (SelectCount t)],
                     stdout := stdout s @ [warning path t]\<rparr>)"
  using assms by (simp add: insert_csv_def execute_count_def count_rows_table logged_def)


text \<open>
  C6. For an entity whose table exists in the store (as it does after
  \<^verbatim>\<open>create_tables\<close>) and whose CSV file is absent, \<^verbatim>\<open>insert_csv\<close> returns 0 without
  raising, prints the warning, and leaves what the connection sees and the store file
  unchanged.
\<close>

theorem insert_csv_absent_file:
  assumes "t \<in> set order" "view s t \<noteq> None" "files path = None"
  shows "fst (insert_csv env files t path s) = Inr 0 \<and>
         stdout (snd (insert_csv env files t path s)) = stdout s @ [warning path t] \<and>
         view (snd (insert_csv env files t path s)) = view s \<and>
         disk (snd (insert_csv env files t path s)) = disk s"
  using assms insert_csv_missing_file [of s t _ files path env] by auto

theorem insert_csv_absent_file_witness:
  "''orders'' \<in> set order \<and>
   view (create_tables (connect (start None)) :: int state) ''orders'' \<noteq> None \<and>
   fst (insert_csv example_env Map.empty ''orders'' ''orders.csv''
          (create_tables (connect (start None)))) = Inr 0 \<and>
   stdout (snd (insert_csv example_env Map.empty ''orders'' ''orders.csv''
          (create_tables (connect (start None))))) =
     [''Warning: orders.csv not found, skipping orders.'']"
  using insert_csv_absent_file [of "''orders''" "create_tables (connect (start None))"
      Map.empty "''orders.csv''" example_env]
  by (simp add: create_tables_has_table order_def warning_def connect_start)




subsection \<open>A malformed numeric field\<close>

lemma build_statement_entity:
  "t \<in> set order \<Longrightarrow>
   build_statement env t rs =
     bindE (params_loop (table_params env t) rs)
       (\<lambda>params. Inr (columns (table_schema t), params))"
  by (auto simp: build_statement_def table_params_def table_schema_def order_def
      categories_schema_def products_schema_def customers_schema_def orders_schema_def
      reviews_schema_def)

lemma to_int_error: "to_int f v = Inl e \<Longrightarrow> conversion_error e"
  by (auto simp: to_int_def split: option.splits if_splits)

lemma to_float_error: "to_float f v = Inl e \<Longrightarrow> conversion_error e"
  by (auto simp: to_float_def split: option.splits if_splits)

lemma to_int_Inr:
  "to_int f v = Inr x \<Longrightarrow> \<not> (case v of None \<Rightarrow> False | Some s \<Rightarrow> s \<noteq> '''' \<and> f s = None)"
  by (auto simp: to_int_def split: option.splits if_splits)

lemma to_float_Inr:
  "to_float f v = Inr x \<Longrightarrow> \<not> (case v of None \<Rightarrow> False | Some s \<Rightarrow> s \<noteq> '''' \<and> f s = None)"
  by (auto simp: to_float_def split: option.splits if_splits)

lemma categories_params_error: "categories_params env r = Inl e \<Longrightarrow> conversion_error e"
  unfolding categories_params_def
  by (auto dest!: bindE_Inl dest: to_int_error to_float_error)

lemma products_params_error: "products_params env r = Inl e \<Longrightarrow> conversion_error e"
  unfolding products_params_def
  by (auto dest!: bindE_Inl dest: to_int_error to_float_error)

lemma customers_params_error: "customers_params env r = Inl e \<Longrightarrow> conversion_error e"
  unfolding customers_params_def
  by (auto dest!: bindE_Inl dest: to_int_error to_float_error)

lemma orders_params_error: "orders_params env r = Inl e \<Longrightarrow> conversion_error e"
  unfolding orders_params_def
  by (auto dest!: bindE_Inl dest: to_int_error to_float_error)

lemma reviews_params_error: "reviews_params env r = Inl e \<Longrightarrow> conversion_error e"
  unfolding reviews_params_def
  by (auto dest!: bindE_Inl dest: to_int_error to_float_error)

lemma table_params_error: "table_params env t r = Inl e \<Longrightarrow> conversion_error e"
  by (auto simp: table_params_def split: if_splits
      dest: categories_params_error products_params_error customers_params_error
        orders_params_error reviews_params_error)

lemma categories_params_ok:
  "categories_params env r = Inr p \<Longrightarrow> \<not> malformed env ''categories'' r"
  unfolding categories_params_def
  by (auto dest!: bindE_Inr dest: to_int_Inr to_float_Inr
      simp: malformed_def int_fields_def float_fields_def)

lemma products_params_ok:
  "products_params env r = Inr p \<Longrightarrow> \<not> malformed env ''products'' r"
  unfolding products_params_def
  by (auto dest!: bindE_Inr dest: to_int_Inr to_float_Inr
      simp: malformed_def int_fields_def float_fields_def)

lemma customers_params_ok:
  "customers_params env r = Inr p \<Longrightarrow> \<not> malformed env ''customers'' r"
  unfolding customers_params_def
  by (auto dest!: bindE_Inr dest: to_int_Inr to_float_Inr
      simp: malformed_def int_fields_def float_fields_def)

lemma orders_params_ok:
  "orders_params env r = Inr p \<Longrightarrow> \<not> malformed env ''orders'' r"
  unfolding orders_params_def
  by (auto dest!: bindE_Inr dest: to_int_Inr to_float_Inr
      simp: malformed_def int_fields_def float_fields_def)

lemma reviews_params_ok:
  "reviews_params env r = Inr p \<Longrightarrow> \<not> malformed env ''reviews'' r"
  unfolding reviews_params_def
  by (auto dest!: bindE_Inr dest: to_int_Inr to_float_Inr
      simp: malformed_def int_fields_def float_fields_def)

lemma table_params_ok:
  "t \<in> set order \<Longrightarrow> table_params env t r = Inr p \<Longrightarrow> \<not> malformed env t r"
  using categories_params_ok [of env r p] products_params_ok [of env r p]
    customers_params_ok [of env r p] orders_params_ok [of env r p]
    reviews_params_ok [of env r p]
  by (auto simp: table_params_def order_def)

lemma params_loop_error:
  assumes "\<exists>r \<in> set rs. \<exists>e. f r = Inl e" "\<And>r e. f r = Inl e \<Longrightarrow> P e"
  shows "\<exists>e. P e \<and> params_loop f rs = Inl e"
  using assms(1)
proof (induction rs)
  case Nil
  then show ?case by simp
next
  case (Cons r rs)
  show ?case
  proof (cases "f r")
    case (Inl e)
    with assms(2) show ?thesis by auto
  next
    case (Inr p)
    with Cons.prems have "\<exists>r \<in> set rs. \<exists>e. f r = Inl e" by auto
    from Cons.IH [OF this] obtain e where "P e" "params_loop f rs = Inl e" by blast
    with Inr show ?thesis by simp
  qed
qed

lemma table_params_malformed:
  assumes "t \<in> set order" "malformed env t r"
  shows "\<exists>e. table_params env t r = Inl e"
proof (cases "table_params env t r")
  case (Inl e)
  then show ?thesis by blast
next
  case (Inr p)
  with table_params_ok [OF assms(1) Inr] assms(2) show ?thesis by simp
qed

lemma build_statement_malformed:
  assumes "t \<in> set order" "\<exists>r \<in> set rs. malformed env t r"
  shows "\<exists>e. conversion_error e \<and> build_statement env t rs = Inl e"
proof -
  from assms have "\<exists>r \<in> set rs. \<exists>e. table_params env t r = Inl e"
    by (blast dest: table_params_malformed)
  then have "\<exists>e. conversion_error e \<and> params_loop (table_params env t) rs = Inl e"
    by (rule params_loop_error) (rule table_params_error)
  then show ?thesis
    by (auto simp: build_statement_entity [OF assms(1)])
qed

text \<open>
  C3. For an entity whose table exists in the store and a CSV file with some line that
  holds a non-empty string the builtin rejects in a field converted by \<^verbatim>\<open>to_int\<close> or
  \<^verbatim>\<open>to_float\<close>, \<^verbatim>\<open>insert_csv\<close> raises the conversion's \<^verbatim>\<open>ValueError\<close> after the first
  count query and before any insert is issued: the state it leaves differs from the one
  it found by that query in the trace only, so no row of the file is visible, neither
  to the connection nor in the store file.
\<close>

theorem insert_csv_malformed_numeric:
  assumes "t \<in> set order" "view s t \<noteq> None" "files path = Some rs"
    and "\<exists>r \<in> set rs. malformed env t r"
  shows "\<exists>e. conversion_error e \<and>
              insert_csv env files t path s = (Inl e, logged (Execute (SelectCount t)) s) \<and>
              view (snd (insert_csv env files t path s)) = view s \<and>
              disk (snd (insert_csv env files t path s)) = disk s"
proof -
  from build_statement_malformed [OF assms(1,4)]
  obtain e where e: "conversion_error e" "build_statement env t rs = Inl e" by blast
  from assms(2) obtain T where "view s t = Some T" by auto
  with e assms(3)
  have "insert_csv env files t path s = (Inl e, logged (Execute (SelectCount t)) s)"
    by (simp add: insert_csv_def execute_count_def count_rows_table)
  with e(1) show ?thesis by auto
qed

theorem insert_csv_malformed_numeric_witness:
  "''products'' \<in> set order \<and>
   (\<exists>r \<in> set bad_products. malformed example_env ''products'' r) \<and>
   (\<exists>e. conversion_error e \<and>
      insert_csv example_env [''products.csv'' \<mapsto> bad_products] ''products'' ''products.csv''
        (create_tables (connect (start None))) =
      (Inl e, logged (Execute (SelectCount ''products'')) (create_tables (connect (start None)))))"
proof -
  have 1: "''products'' \<in> set order"
    by (simp add: order_def)
  have 2: "view (create_tables (connect (start None)) :: int state) ''products'' \<noteq> None"
    using 1 by (rule create_tables_has_table)
  have 3: "[''products.csv'' \<mapsto> bad_products] ''products.csv'' = Some bad_products"
    by simp
  have 4: "\<exists>r \<in> set bad_products. malformed example_env ''products'' r"
    by (simp add: bad_products_def malformed_def int_fields_def float_fields_def
        example_env_def digits_int_def is_digit_def)
  from insert_csv_malformed_numeric
    [where files = "[''products.csv'' \<mapsto> bad_products]" and path = "''products.csv''",
     OF 1 2 3 4] 1 4
  show ?thesis
    by blast
qed

subsection \<open>Running the same file twice\<close>

lemma field_map: "field cs (map f cs) c = (if c \<in> set cs then f c else SqlNull)"
  by (simp add: field_def map_of_zip_map)

lemma set_field_map: "set_field cs k v (map f cs) = map (\<lambda>c. if c = k then v else f c) cs"
  by (simp add: set_field_def zip_map2 zip_same_conv_map)

lemma insert_or_ignore_absorbed:
  assumes "db t = Some T" "absorbed T cols p"
  shows "insert_or_ignore env fk t cols db p = Inr db"
  using assms
  by (auto simp: insert_or_ignore_def absorbed_def bound_row_def Let_def)

lemma extends_refl: "extends T T"
  by (simp add: extends_def)

lemma extends_trans: "extends T T' \<Longrightarrow> extends T' T'' \<Longrightarrow> extends T T''"
  by (auto simp: extends_def)

lemma extends_key_values: "extends T T' \<Longrightarrow> set (key_values T) \<subseteq> set (key_values T')"
  by (auto simp: extends_def key_values_def split: option.splits)

lemma absorbed_extends: "absorbed T cols p \<Longrightarrow> extends T T' \<Longrightarrow> absorbed T' cols p"
  using extends_key_values [of T T']
  by (auto simp: absorbed_def bound_row_def extends_def)

lemma store_row_Inr:
  "store_row fk t T db r = Inr db' \<Longrightarrow> db' = db(t \<mapsto> T\<lparr>rows := rows T @ [r]\<rparr>)"
  by (auto simp: store_row_def Let_def split: if_splits)

lemma insert_or_ignore_step:
  assumes "db t = Some T" "insert_or_ignore env fk t cols db p = Inr db'"
  shows "db' = db \<or>
         (\<exists>g. db' = db(t \<mapsto> T\<lparr>rows := rows T @ [map g (columns (schema T))]\<rparr>) \<and>
              (\<forall>c. primary_key (schema T) \<noteq> Some c \<longrightarrow> g c = field cols p c))"
proof -
  let ?cs = "columns (schema T)"
  let ?r = "map (field cols p) ?cs"
  show ?thesis
  proof (cases "db' = db")
    case True
    then show ?thesis by simp
  next
    case False
    show ?thesis
    proof (cases "primary_key (schema T)")
      case None
      with assms False have "store_row fk t T db ?r = Inr db'"
        by (auto simp: insert_or_ignore_def Let_def split: if_splits)
      from store_row_Inr [OF this] None show ?thesis
        by blast
    next
      case (Some k)
      show ?thesis
      proof (cases "field ?cs ?r k")
        case SqlNull
        with assms False Some obtain i
          where "store_row fk t T db (set_field ?cs k (SqlInt i) ?r) = Inr db'"
          by (auto simp: insert_or_ignore_def Let_def split: if_splits option.splits)
        from store_row_Inr [OF this]
        have "db' = db(t \<mapsto> T\<lparr>rows := rows T @
                [map (\<lambda>c. if c = k then SqlInt i else field cols p c) ?cs]\<rparr>)"
          by (simp add: set_field_map)
        with Some show ?thesis
          by (intro disjI2 exI [of _ "\<lambda>c. if c = k then SqlInt i else field cols p c"]) simp
      next
        case (SqlInt i)
        with assms False Some have "store_row fk t T db ?r = Inr db'"
          by (auto simp: insert_or_ignore_def Let_def split: if_splits)
        from store_row_Inr [OF this] show ?thesis
          by blast
      next
        case (SqlReal x)
        with assms False Some show ?thesis
          by (auto simp: insert_or_ignore_def Let_def split: if_splits)
      next
        case (SqlText x)
        with assms False Some show ?thesis
          by (auto simp: insert_or_ignore_def Let_def split: if_splits)
      qed
    qed
  qed
qed

lemma key_values_append:
  "primary_key (schema T) = Some k \<Longrightarrow>
   key_values (T\<lparr>rows := rows T @ [r]\<rparr>) = key_values T @ [field (columns (schema T)) r k]"
  by (simp add: key_values_def)

lemma insert_or_ignore_then_absorbed:
  assumes "db t = Some T" "insert_or_ignore env fk t cols db p = Inr db'"
    and "primary_key (schema T) = Some k"
    and "field (columns (schema T)) (bound_row T cols p) k = SqlInt i"
  shows "\<exists>T'. db' = db(t \<mapsto> T') \<and> extends T T' \<and> absorbed T' cols p"
proof -
  let ?cs = "columns (schema T)"
  let ?r = "map (field cols p) ?cs"
  from assms(1,2) have range: "\<forall>v \<in> set p. \<not> out_of_range v"
    by (auto simp: insert_or_ignore_def split: if_splits)
  show ?thesis
  proof (cases "absorbed T cols p")
    case True
    with assms(1) insert_or_ignore_absorbed [where db = db and t = t and env = env and fk = fk, OF assms(1) True] assms(2)
    have "db' = db(t \<mapsto> T)" by auto
    with True show ?thesis
      using extends_refl by blast
  next
    case False
    with range assms(3,4)
    have nn: "\<not> (\<exists>c \<in> set (not_null (schema T)). field ?cs ?r c = SqlNull)"
      and fresh: "SqlInt i \<notin> set (key_values T)"
      by (auto simp: absorbed_def bound_row_def)
    with assms range have "store_row fk t T db ?r = Inr db'"
      by (simp add: insert_or_ignore_def Let_def bound_row_def)
    from store_row_Inr [OF this]
    have db': "db' = db(t \<mapsto> T\<lparr>rows := rows T @ [?r]\<rparr>)" .
    have "extends T (T\<lparr>rows := rows T @ [?r]\<rparr>)"
      by (simp add: extends_def)
    moreover have "absorbed (T\<lparr>rows := rows T @ [?r]\<rparr>) cols p"
      using range assms(3,4)
      by (simp add: absorbed_def bound_row_def key_values_append)
    ultimately show ?thesis
      using db' by blast
  qed
qed

lemma bound_row_extends: "extends T T' \<Longrightarrow> bound_row T' cols p = bound_row T cols p"
  by (simp add: bound_row_def extends_def)

lemma insert_rows_absorbs:
  assumes "insert_rows env fk t cols db ps = (None, db')" "db t = Some T"
    and "primary_key (schema T) = Some k"
    and "\<forall>p \<in> set ps. \<exists>i. field (columns (schema T)) (bound_row T cols p) k = SqlInt i"
  shows "\<exists>T'. db' = db(t \<mapsto> T') \<and> extends T T' \<and> (\<forall>p \<in> set ps. absorbed T' cols p)"
  using assms
proof (induction ps arbitrary: db T)
  case Nil
  then have "db' = db(t \<mapsto> T)" by auto
  then show ?case using extends_refl by auto
next
  case (Cons p ps)
  from Cons.prems(1) obtain db1 where
    step: "insert_or_ignore env fk t cols db p = Inr db1"
    and rest: "insert_rows env fk t cols db1 ps = (None, db')"
    by (auto split: sum.splits)
  from Cons.prems(4) obtain i
    where "field (columns (schema T)) (bound_row T cols p) k = SqlInt i" by auto
  from insert_or_ignore_then_absorbed [OF Cons.prems(2) step Cons.prems(3) this]
  obtain T1 where T1: "db1 = db(t \<mapsto> T1)" "extends T T1" "absorbed T1 cols p" by blast
  then have s1: "db1 t = Some T1" "primary_key (schema T1) = Some k"
    using Cons.prems(3) by (simp_all add: extends_def)
  have "\<forall>p \<in> set ps. \<exists>i. field (columns (schema T1)) (bound_row T1 cols p) k = SqlInt i"
    using Cons.prems(4) T1(2) by (simp add: bound_row_extends) (simp add: extends_def)
  from Cons.IH [OF rest s1 this]
  obtain T' where T': "db' = db1(t \<mapsto> T')" "extends T1 T'" "\<forall>p \<in> set ps. absorbed T' cols p"
    by blast
  have "db' = db(t \<mapsto> T')" using T'(1) T1(1) by simp
  moreover have "extends T T'" using T1(2) T'(2) by (rule extends_trans)
  moreover have "absorbed T' cols p" using T1(3) T'(2) by (rule absorbed_extends)
  ultimately show ?case using T'(3) by auto
qed

lemma insert_rows_all_absorbed:
  assumes "db t = Some T" "\<forall>p \<in> set ps. absorbed T cols p"
  shows "insert_rows env fk t cols db ps = (None, db)"
  using assms(2)
proof (induction ps)
  case Nil
  then show ?case by simp
next
  case (Cons p ps)
  then have "insert_or_ignore env fk t cols db p = Inr db"
    using insert_or_ignore_absorbed [where db = db and t = t, OF assms(1)] by simp
  with Cons show ?case by simp
qed

lemma prepare_insert_same_schema:
  assumes "view s t = Some T" "view s' = (view s)(t \<mapsto> T')" "schema T' = schema T"
    and "foreign_keys s' = foreign_keys s"
  shows "prepare_insert s' t cols = prepare_insert s t cols"
proof -
  have "(case view s' parent of None \<Rightarrow> True | Some P \<Rightarrow> primary_key (schema P) \<noteq> Some ''ID'') =
        (case view s parent of None \<Rightarrow> True | Some P \<Rightarrow> primary_key (schema P) \<noteq> Some ''ID'')"
    for parent
    using assms(1,2,3) by (cases "parent = t") simp_all
  with assms show ?thesis
    by (simp add: prepare_insert_def)
qed

lemma params_loop_Inr:
  "params_loop f rs = Inr ps \<Longrightarrow> \<forall>p \<in> set ps. \<exists>r \<in> set rs. f r = Inr p"
proof (induction rs arbitrary: ps)
  case Nil
  then show ?case by simp
next
  case (Cons r rs)
  from Cons.prems obtain p ps' where "f r = Inr p" "params_loop f rs = Inr ps'" "ps = p # ps'"
    by (auto dest!: bindE_Inr)
  with Cons.IH [of ps'] show ?case by auto
qed

lemma prepare_insert_cong:
  assumes "view s' = view s" "foreign_keys s' = foreign_keys s"
  shows "prepare_insert s' t cols = prepare_insert s t cols"
  unfolding prepare_insert_def assms ..

lemma prepare_insert_logged [simp]: "prepare_insert (logged a s) t cols = prepare_insert s t cols"
  by (rule prepare_insert_cong) simp_all

lemma insert_csv_success:
  assumes "view s t = Some T" "files path = Some rs"
    and "build_statement env t rs = Inr (cols, ps)"
    and "prepare_insert s t cols = None"
    and "insert_rows env (foreign_keys s) t cols (view s) ps = (None, db')"
    and "db' t = Some T'"
  shows "insert_csv env files t path s =
           (Inr (int (length (rows T')) - int (length (rows T))),
            logged (Execute (SelectCount t))
              (commit ((logged (ExecuteMany (InsertOrIgnore t cols) (length ps))
                 (logged (Execute (SelectCount t)) s))\<lparr>view := db', in_txn := True\<rparr>)))"
  using assms
  by (simp add: insert_csv_def execute_count_def count_rows_table executemany_def Let_def)

lemma insert_csv_returns:
  assumes "insert_csv env files t path s = (Inr n, s1)" "files path = Some rs"
  shows "\<exists>cols ps db'. build_statement env t rs = Inr (cols, ps) \<and>
           prepare_insert s t cols = None \<and>
           insert_rows env (foreign_keys s) t cols (view s) ps = (None, db')"
  using assms
  by (auto simp: insert_csv_def execute_count_def executemany_def Let_def
      split: option.splits sum.splits prod.splits if_splits)

lemma to_int_not_blank: "to_int f v = Inr x \<Longrightarrow> \<not> blank v \<Longrightarrow> \<exists>n. x = Some n"
  by (cases x) (auto simp: to_int_def blank_def split: option.splits if_splits)

lemma field_head [simp]: "field (c # cs) (v # vs) c = v"
  by (simp add: field_def)

lemma bind_int_Some: "x \<noteq> None \<Longrightarrow> \<exists>i. bind_int x = SqlInt i"
  by (cases x) (simp_all add: bind_int_def)

lemma to_int_ID:
  assumes "to_int f v = Inr x" "\<not> blank v"
  shows "\<exists>i. field (''ID'' # cs) (bind_int x # vs) ''ID'' = SqlInt i"
  using to_int_not_blank [OF assms] by (auto simp: bind_int_def)

lemma categories_params_ID:
  assumes "categories_params env r = Inr p" "\<not> blank (r ''ID'')"
  shows "\<exists>i. field (columns categories_schema) p ''ID'' = SqlInt i"
proof -
  from assms(1) obtain x vs where "to_int (py_int env) (r ''ID'') = Inr x" "p = bind_int x # vs"
    unfolding categories_params_def by (blast dest!: bindE_Inr)
  with to_int_ID [OF this(1) assms(2)] show ?thesis
    by (simp add: categories_schema_def)
qed

lemma products_params_ID:
  assumes "products_params env r = Inr p" "\<not> blank (r ''ID'')"
  shows "\<exists>i. field (columns products_schema) p ''ID'' = SqlInt i"
proof -
  from assms(1) obtain x vs where "to_int (py_int env) (r ''ID'') = Inr x" "p = bind_int x # vs"
    unfolding products_params_def by (blast dest!: bindE_Inr)
  with to_int_ID [OF this(1) assms(2)] show ?thesis
    by (simp add: products_schema_def)
qed

lemma customers_params_ID:
  assumes "customers_params env r = Inr p" "\<not> blank (r ''ID'')"
  shows "\<exists>i. field (columns customers_schema) p ''ID'' = SqlInt i"
proof -
  from assms(1) obtain x vs where "to_int (py_int env) (r ''ID'') = Inr x" "p = bind_int x # vs"
    unfolding customers_params_def by (blast dest!: bindE_Inr)
  with to_int_ID [OF this(1) assms(2)] show ?thesis
    by (simp add: customers_schema_def)
qed

lemma orders_params_ID:
  assumes "orders_params env r = Inr p" "\<not> blank (r ''ID'')"
  shows "\<exists>i. field (columns orders_schema) p ''ID'' = SqlInt i"
proof -
  from assms(1) obtain x vs where "to_int (py_int env) (r ''ID'') = Inr x" "p = bind_int x # vs"
    unfolding orders_params_def by (blast dest!: bindE_Inr)
  with to_int_ID [OF this(1) assms(2)] show ?thesis
    by (simp add: orders_schema_def)
qed

lemma reviews_params_ID:
  assumes "reviews_params env r = Inr p" "\<not> blank (r ''ID'')"
  shows "\<exists>i. field (columns reviews_schema) p ''ID'' = SqlInt i"
proof -
  from assms(1) obtain x vs where "to_int (py_int env) (r ''ID'') = Inr x" "p = bind_int x # vs"
    unfolding reviews_params_def by (blast dest!: bindE_Inr)
  with to_int_ID [OF this(1) assms(2)] show ?thesis
    by (simp add: reviews_schema_def)
qed

lemma entity_disj:
  "t \<in> set order \<Longrightarrow>
   t = ''categories'' \<or> t = ''products'' \<or> t = ''customers'' \<or> t = ''orders'' \<or> t = ''reviews''"
  by (simp add: order_def)

lemma entity_cases:
  assumes "t \<in> set order"
  obtains "t = ''categories''" | "t = ''products''" | "t = ''customers''" | "t = ''orders''"
    | "t = ''reviews''"
proof -
  from entity_disj [OF assms] show thesis
  proof (elim disjE)
    assume "t = ''categories''" then show thesis by (rule that(1))
  next
    assume "t = ''products''" then show thesis by (rule that(2))
  next
    assume "t = ''customers''" then show thesis by (rule that(3))
  next
    assume "t = ''orders''" then show thesis by (rule that(4))
  next
    assume "t = ''reviews''" then show thesis by (rule that(5))
  qed
qed

lemma table_params_simps:
  "table_params env ''categories'' = categories_params env"
  "table_params env ''products'' = products_params env"
  "table_params env ''customers'' = customers_params env"
  "table_params env ''orders'' = orders_params env"
  "table_params env ''reviews'' = reviews_params env"
  by (simp_all add: table_params_def)

lemma table_schema_simps:
  "table_schema ''categories'' = categories_schema"
  "table_schema ''products'' = products_schema"
  "table_schema ''customers'' = customers_schema"
  "table_schema ''orders'' = orders_schema"
  "table_schema ''reviews'' = reviews_schema"
  by (simp_all add: table_schema_def)

lemma table_params_ID:
  assumes "t \<in> set order" "table_params env t r = Inr p" "\<not> blank (r ''ID'')"
  shows "\<exists>i. field (columns (table_schema t)) p ''ID'' = SqlInt i"
  using assms(1)
proof (cases rule: entity_cases)
  case 1
  with assms(2,3) categories_params_ID [of env r p] show ?thesis
    by (simp add: table_params_simps table_schema_simps)
next
  case 2
  with assms(2,3) products_params_ID [of env r p] show ?thesis
    by (simp add: table_params_simps table_schema_simps)
next
  case 3
  with assms(2,3) customers_params_ID [of env r p] show ?thesis
    by (simp add: table_params_simps table_schema_simps)
next
  case 4
  with assms(2,3) orders_params_ID [of env r p] show ?thesis
    by (simp add: table_params_simps table_schema_simps)
next
  case 5
  with assms(2,3) reviews_params_ID [of env r p] show ?thesis
    by (simp add: table_params_simps table_schema_simps)
qed

lemma table_schema_key:
  assumes "t \<in> set order"
  shows "primary_key (table_schema t) = Some ''ID''"
    and "''ID'' \<in> set (columns (table_schema t))"
  using assms
  by (cases rule: entity_cases;
      simp add: table_schema_simps categories_schema_def products_schema_def
        customers_schema_def orders_schema_def reviews_schema_def)+

text \<open>
  C1, as the code has it. For an entity whose table in the store has the schema of
  \<^verbatim>\<open>create_tables\<close>, and a CSV file (if present) in which every line has a
  non-empty ID: when a run of \<^verbatim>\<open>insert_csv\<close> returns, a second run on the same
  file against the state left by the first returns 0 and leaves what the connection sees
  and the store file as the first run left them.
\<close>

theorem insert_csv_idempotent:
  assumes "t \<in> set order" "view s t = Some T" "schema T = table_schema t"
    and "\<forall>rs. files path = Some rs \<longrightarrow> (\<forall>r \<in> set rs. \<not> blank (r ''ID''))"
    and "insert_csv env files t path s = (Inr n, s1)"
  shows "\<exists>s2. insert_csv env files t path s1 = (Inr 0, s2) \<and>
              view s2 = view s1 \<and> disk s2 = disk s1"
proof (cases "files path")
  case None
  from insert_csv_missing_file [where files = files and s = s and env = env, OF assms(2) None] assms(2,5)
  have "view s1 t = Some T" by auto
  from insert_csv_missing_file [where files = files and s = s1 and env = env, OF this None] show ?thesis
    by simp
next
  case (Some rs)
  let ?cs = "columns (table_schema t)"
  from insert_csv_returns [where files = files, OF assms(5) Some] assms(2)
  obtain cols ps db' where
    build: "build_statement env t rs = Inr (cols, ps)"
    and prep: "prepare_insert s t cols = None"
    and ins: "insert_rows env (foreign_keys s) t cols (view s) ps = (None, db')"
    by auto
  from build have cols: "cols = ?cs"
    and loop: "params_loop (table_params env t) rs = Inr ps"
    by (auto simp: build_statement_entity [OF assms(1)] dest!: bindE_Inr)
  have key: "primary_key (schema T) = Some ''ID''"
    using assms(1,3) by (simp add: table_schema_key)
  have keyed: "\<forall>p \<in> set ps. \<exists>i. field (columns (schema T)) (bound_row T cols p) ''ID'' = SqlInt i"
  proof
    fix p assume "p \<in> set ps"
    with params_loop_Inr [OF loop] obtain r where "r \<in> set rs" "table_params env t r = Inr p"
      by blast
    with assms(4) Some table_params_ID [OF assms(1), of env r p]
    obtain i where "field ?cs p ''ID'' = SqlInt i" by auto
    with assms(1,3) cols show "\<exists>i. field (columns (schema T)) (bound_row T cols p) ''ID'' = SqlInt i"
      by (simp add: bound_row_def field_map table_schema_key)
  qed
  from insert_rows_absorbs [OF ins assms(2) key keyed]
  obtain T' where T': "db' = (view s)(t \<mapsto> T')" "extends T T'" "\<forall>p \<in> set ps. absorbed T' cols p"
    by blast
  then have db't: "db' t = Some T'" by simp
  from insert_csv_success [where files = files and s = s, OF assms(2) Some build prep ins db't] assms(5)
  have s1: "s1 = logged (Execute (SelectCount t))
              (commit ((logged (ExecuteMany (InsertOrIgnore t cols) (length ps))
                 (logged (Execute (SelectCount t)) s))\<lparr>view := db', in_txn := True\<rparr>))"
    by simp
  then have v1: "view s1 = db'" and d1: "disk s1 = Some db'"
    and f1: "foreign_keys s1 = foreign_keys s"
    by simp_all
  have prep1: "prepare_insert s1 t cols = None"
    using prepare_insert_same_schema [where s = s and s' = s1 and T' = T' and cols = cols, OF assms(2)] v1 T'(1,2) f1 prep
    by (simp add: extends_def)
  have ins1: "insert_rows env (foreign_keys s1) t cols (view s1) ps = (None, db')"
    using insert_rows_all_absorbed [where db = db' and t = t, OF db't T'(3)] v1 by simp
  have "view s1 t = Some T'" using v1 db't by simp
  from insert_csv_success [where files = files and s = s1, OF this Some build prep1 ins1 db't] v1 d1 show ?thesis
    by simp
qed

lemma fresh_store_categories:
  "view fresh_store ''categories'' = Some \<lparr>schema = categories_schema, rows = []\<rparr>"
  by (simp add: fresh_store_def create_tables_view order_def table_schema_simps connect_def
      start_def persisted_def)

theorem insert_csv_idempotent_witness:
  "fst (insert_csv example_env [''categories.csv'' \<mapsto> example_categories] ''categories''
         ''categories.csv'' fresh_store) = Inr 2 \<and>
   (\<exists>s2. insert_csv example_env [''categories.csv'' \<mapsto> example_categories] ''categories''
           ''categories.csv''
           (snd (insert_csv example_env [''categories.csv'' \<mapsto> example_categories]
              ''categories'' ''categories.csv'' fresh_store)) = (Inr 0, s2) \<and>
         view s2 = view (snd (insert_csv example_env
              [''categories.csv'' \<mapsto> example_categories] ''categories'' ''categories.csv''
              fresh_store)) \<and>
         disk s2 = disk (snd (insert_csv example_env
              [''categories.csv'' \<mapsto> example_categories] ''categories'' ''categories.csv''
              fresh_store)))"
proof -
  let ?files = "[''categories.csv'' \<mapsto> example_categories]"
  let ?run = "insert_csv example_env ?files ''categories'' ''categories.csv'' fresh_store"
  have 1: "''categories'' \<in> set order"
    by (simp add: order_def)
  have 3: "schema \<lparr>schema = categories_schema, rows = [] :: int row list\<rparr> =
           table_schema ''categories''"
    by (simp add: table_schema_simps)
  have 4: "\<forall>rs. ?files ''categories.csv'' = Some rs \<longrightarrow> (\<forall>r \<in> set rs. \<not> blank (r ''ID''))"
    by (simp add: example_categories_def blank_def)
  have 5: "fst ?run = Inr 2"
    by code_simp
  then have 6: "?run = (Inr 2, snd ?run)"
    by (simp add: prod_eq_iff)
  from insert_csv_idempotent
    [where files = ?files and path = "''categories.csv''" and s = fresh_store,
     OF 1 fresh_store_categories 3 4 6] 5
  show ?thesis by simp
qed

text \<open>
  The claim C1 as stated fails. A line without an ID is stored under a fresh row id on
  every run: the second run on the same file returns 1 and adds a second row. And a run
  that raises is followed by a second run that raises again instead of returning 0.
\<close>

theorem insert_csv_idempotent_counterexample:
  "fst (insert_csv example_env [''categories.csv'' \<mapsto> unkeyed_categories] ''categories''
         ''categories.csv'' fresh_store) = Inr 1 \<and>
   fst (insert_csv example_env [''categories.csv'' \<mapsto> unkeyed_categories] ''categories''
         ''categories.csv''
         (snd (insert_csv example_env [''categories.csv'' \<mapsto> unkeyed_categories]
            ''categories'' ''categories.csv'' fresh_store))) = Inr 1 \<and>
   map_option rows (view (snd (insert_csv example_env
         [''categories.csv'' \<mapsto> unkeyed_categories] ''categories'' ''categories.csv''
         (snd (insert_csv example_env [''categories.csv'' \<mapsto> unkeyed_categories]
            ''categories'' ''categories.csv'' fresh_store)))) ''categories'') =
     Some [[SqlInt 1, SqlText ''Books'', SqlNull], [SqlInt 2, SqlText ''Books'', SqlNull]] \<and>
   fst (insert_csv example_env [''products.csv'' \<mapsto> bad_products] ''products''
         ''products.csv''
         (snd (insert_csv example_env [''products.csv'' \<mapsto> bad_products] ''products''
            ''products.csv'' fresh_store))) = Inl (InvalidFloatLiteral ''cheap'')"
  by code_simp

subsection \<open>Blank numeric fields\<close>

lemma to_int_blank: "blank v \<Longrightarrow> to_int f v = Inr None"
  by (auto simp: blank_def to_int_def)

lemma to_float_blank: "blank v \<Longrightarrow> to_float f v = Inr None"
  by (auto simp: blank_def to_float_def)

lemma categories_params_blank:
  assumes "categories_params env r = Inr p"
    and "c \<in> set (int_fields ''categories'' @ float_fields ''categories'')" "blank (r c)"
  shows "field (columns categories_schema) p c = SqlNull"
proof -
  from assms(1) obtain pid i where conv:
    "to_int (py_int env) (r ''parent_category_id'') = Inr pid"
    "to_int (py_int env) (r ''ID'') = Inr i"
    and p: "p = [bind_int i, bind_str (r ''category_name''), bind_int pid]"
    unfolding categories_params_def by (blast dest!: bindE_Inr)
  from assms(2) have "c = ''parent_category_id'' \<or> c = ''ID''"
    by (simp add: int_fields_def float_fields_def)
  then show ?thesis
  proof (elim disjE)
    assume c: "c = ''parent_category_id''"
    with assms(3) conv have "pid = None" by (simp add: to_int_blank)
    with c p show ?thesis by (simp add: field_def categories_schema_def bind_int_def)
  next
    assume c: "c = ''ID''"
    with assms(3) conv have "i = None" by (simp add: to_int_blank)
    with c p show ?thesis by (simp add: field_def categories_schema_def bind_int_def)
  qed
qed

lemma products_params_blank:
  assumes "products_params env r = Inr p"
    and "c \<in> set (int_fields ''products'' @ float_fields ''products'')" "blank (r c)"
  shows "field (columns products_schema) p c = SqlNull"
proof -
  from assms(1) obtain i ca pr q where conv:
    "to_int (py_int env) (r ''ID'') = Inr i"
    "to_int (py_int env) (r ''category'') = Inr ca"
    "to_float (py_float env) (r ''price'') = Inr pr"
    "to_int (py_int env) (r ''stock_quantity'') = Inr q"
    and p: "p = [bind_int i, bind_str (r ''name''), bind_int ca, bind_float pr, bind_int q]"
    unfolding products_params_def by (blast dest!: bindE_Inr)
  from assms(2) have "c = ''ID'' \<or> c = ''category'' \<or> c = ''stock_quantity'' \<or> c = ''price''"
    by (simp add: int_fields_def float_fields_def)
  then show ?thesis
  proof (elim disjE)
    assume c: "c = ''ID''"
    with assms(3) conv have "i = None" by (simp add: to_int_blank)
    with c p show ?thesis by (simp add: field_def products_schema_def bind_int_def)
  next
    assume c: "c = ''category''"
    with assms(3) conv have "ca = None" by (simp add: to_int_blank)
    with c p show ?thesis by (simp add: field_def products_schema_def bind_int_def)
  next
    assume c: "c = ''stock_quantity''"
    with assms(3) conv have "q = None" by (simp add: to_int_blank)
    with c p show ?thesis by (simp add: field_def products_schema_def bind_int_def)
  next
    assume c: "c = ''price''"
    with assms(3) conv have "pr = None" by (simp add: to_float_blank)
    with c p show ?thesis by (simp add: field_def products_schema_def bind_float_def)
  qed
qed

lemma customers_params_blank:
  assumes "customers_params env r = Inr p"
    and "c \<in> set (int_fields ''customers'' @ float_fields ''customers'')" "blank (r c)"
  shows "field (columns customers_schema) p c = SqlNull"
proof -
  from assms(1) obtain i where conv:
    "to_int (py_int env) (r ''ID'') = Inr i"
    and p: "p = [bind_int i, bind_str (r ''name''), bind_str (r ''email''),
          bind_str (r ''registration_date'')]"
    unfolding customers_params_def by (blast dest!: bindE_Inr)
  from assms(2) have c: "c = ''ID''"
    by (simp add: int_fields_def float_fields_def)
  with assms(3) conv have "i = None" by (simp add: to_int_blank)
  with c p show ?thesis by (simp add: field_def customers_schema_def bind_int_def)
qed

lemma orders_params_blank:
  assumes "orders_params env r = Inr p"
    and "c \<in> set (int_fields ''orders'' @ float_fields ''orders'')" "blank (r c)"
  shows "field (columns orders_schema) p c = SqlNull"
proof -
  from assms(1) obtain i cu pd q tp where conv:
    "to_int (py_int env) (r ''ID'') = Inr i"
    "to_int (py_int env) (r ''customer_id'') = Inr cu"
    "to_int (py_int env) (r ''product_id'') = Inr pd"
    "to_int (py_int env) (r ''quantity'') = Inr q"
    "to_float (py_float env) (r ''total_price'') = Inr tp"
    and p: "p = [bind_int i, bind_int cu, bind_int pd, bind_str (r ''order_date''), bind_int q,
          bind_float tp]"
    unfolding orders_params_def by (blast dest!: bindE_Inr)
  from assms(2) have "c = ''ID'' \<or> c = ''customer_id'' \<or> c = ''product_id'' \<or> c = ''quantity'' \<or> c = ''total_price''"
    by (simp add: int_fields_def float_fields_def)
  then show ?thesis
  proof (elim disjE)
    assume c: "c = ''ID''"
    with assms(3) conv have "i = None" by (simp add: to_int_blank)
    with c p show ?thesis by (simp add: field_def orders_schema_def bind_int_def)
  next
    assume c: "c = ''customer_id''"
    with assms(3) conv have "cu = None" by (simp add: to_int_blank)
    with c p show ?thesis by (simp add: field_def orders_schema_def bind_int_def)
  next
    assume c: "c = ''product_id''"
    with assms(3) conv have "pd = None" by (simp add: to_int_blank)
    with c p show ?thesis by (simp add: field_def orders_schema_def bind_int_def)
  next
    assume c: "c = ''quantity''"
    with assms(3) conv have "q = None" by (simp add: to_int_blank)
    with c p show ?thesis by (simp add: field_def orders_schema_def bind_int_def)
  next
    assume c: "c = ''total_price''"
    with assms(3) conv have "tp = None" by (simp add: to_float_blank)
    with c p show ?thesis by (simp add: field_def orders_schema_def bind_float_def)
  qed
qed

lemma reviews_params_blank:
  assumes "reviews_params env r = Inr p"
    and "c \<in> set (int_fields ''reviews'' @ float_fields ''reviews'')" "blank (r c)"
  shows "field (columns reviews_schema) p c = SqlNull"
proof -
  from assms(1) obtain i pd cu g where conv:
    "to_int (py_int env) (r ''ID'') = Inr i"
    "to_int (py_int env) (r ''product_id'') = Inr pd"
    "to_int (py_int env) (r ''customer_id'') = Inr cu"
    "to_int (py_int env) (r ''rating'') = Inr g"
    and p: "p = [bind_int i, bind_int pd, bind_int cu, bind_int g, bind_str (r ''review_text''),
          bind_str (r ''review_date'')]"
    unfolding reviews_params_def by (blast dest!: bindE_Inr)
  from assms(2) have "c = ''ID'' \<or> c = ''product_id'' \<or> c = ''customer_id'' \<or> c = ''rating''"
    by (simp add: int_fields_def float_fields_def)
  then show ?thesis
  proof (elim disjE)
    assume c: "c = ''ID''"
    with assms(3) conv have "i = None" by (simp add: to_int_blank)
    with c p show ?thesis by (simp add: field_def reviews_schema_def bind_int_def)
  next
    assume c: "c = ''product_id''"
    with assms(3) conv have "pd = None" by (simp add: to_int_blank)
    with c p show ?thesis by (simp add: field_def reviews_schema_def bind_int_def)
  next
    assume c: "c = ''customer_id''"
    with assms(3) conv have "cu = None" by (simp add: to_int_blank)
    with c p show ?thesis by (simp add: field_def reviews_schema_def bind_int_def)
  next
    assume c: "c = ''rating''"
    with assms(3) conv have "g = None" by (simp add: to_int_blank)
    with c p show ?thesis by (simp add: field_def reviews_schema_def bind_int_def)
  qed
qed

lemma table_params_blank:
  assumes "t \<in> set order" "table_params env t r = Inr p"
    and "c \<in> set (int_fields t @ float_fields t)" "blank (r c)"
  shows "field (columns (table_schema t)) p c = SqlNull"
  using assms(1)
proof (cases rule: entity_cases)
  case 1
  with assms(2,3,4) categories_params_blank [of env r p c] show ?thesis
    by (simp add: table_params_simps table_schema_simps)
next
  case 2
  with assms(2,3,4) products_params_blank [of env r p c] show ?thesis
    by (simp add: table_params_simps table_schema_simps)
next
  case 3
  with assms(2,3,4) customers_params_blank [of env r p c] show ?thesis
    by (simp add: table_params_simps table_schema_simps)
next
  case 4
  with assms(2,3,4) orders_params_blank [of env r p c] show ?thesis
    by (simp add: table_params_simps table_schema_simps)
next
  case 5
  with assms(2,3,4) reviews_params_blank [of env r p c] show ?thesis
    by (simp add: table_params_simps table_schema_simps)
qed

text \<open>
  C4, as the code has it. Both coercions return \<^verbatim>\<open>None\<close>, neither zero nor an error,
  for a field that is absent or the empty string. For a line of an entity's file and a
  numeric field of that entity other than the key \<^verbatim>\<open>ID\<close>: when the field is blank, the
  parameter bound for it is NULL, and when the execution of the insert statement for
  that line (one step of \<^verbatim>\<open>executemany\<close>) stores a row, the row stored has NULL in
  that field.
\<close>

theorem blank_numeric_field_is_null:
  "(blank v \<longrightarrow> to_int f v = Inr None \<and> to_float g v = Inr None) \<and>
   (t \<in> set order \<and> c \<in> set (int_fields t @ float_fields t) \<and> c \<noteq> ''ID'' \<and>
    blank (r c) \<and> table_params env t r = Inr p \<and>
    db t = Some T \<and> schema T = table_schema t \<and>
    insert_or_ignore env fk t (columns (table_schema t)) db p = Inr db' \<and> db' \<noteq> db \<longrightarrow>
      field (columns (table_schema t)) p c = SqlNull \<and>
      (\<exists>stored. db' = db(t \<mapsto> T\<lparr>rows := rows T @ [stored]\<rparr>) \<and>
                field (columns (table_schema t)) stored c = SqlNull))"
proof (intro conjI impI)
  assume "blank v"
  then show "to_int f v = Inr None" "to_float g v = Inr None"
    by (simp_all add: to_int_blank to_float_blank)
next
  assume h: "t \<in> set order \<and> c \<in> set (int_fields t @ float_fields t) \<and> c \<noteq> ''ID'' \<and>
    blank (r c) \<and> table_params env t r = Inr p \<and>
    db t = Some T \<and> schema T = table_schema t \<and>
    insert_or_ignore env fk t (columns (table_schema t)) db p = Inr db' \<and> db' \<noteq> db"
  then have null: "field (columns (table_schema t)) p c = SqlNull"
    using table_params_blank [of t env r p c] by simp
  then show "field (columns (table_schema t)) p c = SqlNull" .
  from h have key: "primary_key (schema T) \<noteq> Some c"
    by (auto simp: table_schema_key)
  from h insert_or_ignore_step [of db t T env fk "columns (table_schema t)" p db']
  obtain g where g: "db' = db(t \<mapsto> T\<lparr>rows := rows T @ [map g (columns (schema T))]\<rparr>)"
    "\<forall>c. primary_key (schema T) \<noteq> Some c \<longrightarrow> g c = field (columns (table_schema t)) p c"
    by auto
  with key null h have "field (columns (table_schema t)) (map g (columns (schema T))) c = SqlNull"
    by (simp add: field_map)
  with g(1) show "\<exists>stored. db' = db(t \<mapsto> T\<lparr>rows := rows T @ [stored]\<rparr>) \<and>
                field (columns (table_schema t)) stored c = SqlNull"
    by blast
qed

lemma fresh_store_products:
  "view fresh_store ''products'' = Some \<lparr>schema = products_schema, rows = []\<rparr>"
  by (simp add: fresh_store_def create_tables_view order_def table_schema_simps connect_def
      start_def persisted_def)

theorem blank_numeric_field_is_null_witness:
  "table_params example_env ''products'' blank_price_line =
     Inr [SqlInt 10, SqlText ''Novel'', SqlNull, SqlNull, SqlNull] \<and>
   insert_or_ignore example_env True ''products'' (columns (table_schema ''products''))
     (view fresh_store) [SqlInt 10, SqlText ''Novel'', SqlNull, SqlNull, SqlNull] =
     Inr ((view fresh_store)(''products'' \<mapsto> \<lparr>schema = products_schema,
        rows = [[SqlInt 10, SqlText ''Novel'', SqlNull, SqlNull, SqlNull]]\<rparr>)) \<and>
   (\<exists>stored.
      (view fresh_store)(''products'' \<mapsto> \<lparr>schema = products_schema,
        rows = [[SqlInt 10, SqlText ''Novel'', SqlNull, SqlNull, SqlNull]]\<rparr>) =
      (view fresh_store)(''products'' \<mapsto> \<lparr>schema = products_schema, rows = [stored]\<rparr>) \<and>
      field (columns (table_schema ''products'')) stored ''price'' = SqlNull)"
proof -
  let ?p = "[SqlInt 10, SqlText ''Novel'', SqlNull, SqlNull, SqlNull] :: int row"
  let ?T = "\<lparr>schema = products_schema, rows = [] :: int row list\<rparr>"
  let ?db' = "(view fresh_store)(''products'' \<mapsto> \<lparr>schema = products_schema, rows = [?p]\<rparr>)"
  have 1: "''products'' \<in> set order"
    by (simp add: order_def)
  have 2: "''price'' \<in> set (int_fields ''products'' @ float_fields ''products'')"
    "''price'' \<noteq> ''ID''" "blank (blank_price_line ''price'')"
    by (simp_all add: int_fields_def float_fields_def blank_price_line_def blank_def)
  have 3: "table_params example_env ''products'' blank_price_line = Inr ?p"
    by (simp add: table_params_simps products_params_def blank_price_line_def example_env_def
        to_int_def to_float_def digits_int_def is_digit_def bind_int_def bind_str_def
        bind_float_def)
  have 4: "schema ?T = table_schema ''products''"
    by (simp add: table_schema_simps)
  have 5: "insert_or_ignore example_env True ''products'' (columns (table_schema ''products''))
             (view fresh_store) ?p = Inr ?db'"
    by (simp add: insert_or_ignore_def fresh_store_products table_schema_simps
        products_schema_def field_def store_row_def fk_ok_def key_values_def Let_def)
  have 6: "?db' \<noteq> view fresh_store"
    by (simp add: fun_upd_idem_iff fresh_store_products)
  have hyps: "''products'' \<in> set order \<and>
      ''price'' \<in> set (int_fields ''products'' @ float_fields ''products'') \<and>
      ''price'' \<noteq> ''ID'' \<and> blank (blank_price_line ''price'') \<and>
      table_params example_env ''products'' blank_price_line = Inr ?p \<and>
      view fresh_store ''products'' = Some ?T \<and> schema ?T = table_schema ''products'' \<and>
      insert_or_ignore example_env True ''products'' (columns (table_schema ''products''))
        (view fresh_store) ?p = Inr ?db' \<and> ?db' \<noteq> view fresh_store"
    using 1 2 3 4 5 6 fresh_store_products by (intro conjI)
  have "field (columns (table_schema ''products'')) ?p ''price'' = SqlNull \<and>
      (\<exists>stored. ?db' = (view fresh_store)(''products'' \<mapsto> ?T\<lparr>rows := rows ?T @ [stored]\<rparr>) \<and>
                field (columns (table_schema ''products'')) stored ''price'' = SqlNull)"
    using blank_numeric_field_is_null [where t = "''products''" and c = "''price''"
        and r = blank_price_line and env = example_env and p = ?p and db = "view fresh_store"
        and T = ?T and fk = True and db' = ?db', THEN conjunct2] hyps
    by (rule mp)
  with 3 5 show ?thesis by simp
qed

text \<open>
  The claim C4 as stated fails for the numeric field \<^verbatim>\<open>ID\<close>: a blank ID is coerced to
  \<^verbatim>\<open>None\<close>, and the row is stored with the row id 1, not with NULL.
\<close>

theorem blank_numeric_field_is_null_counterexample:
  "''ID'' \<in> set (int_fields ''categories'' @ float_fields ''categories'') \<and>
   blank (hd unkeyed_categories ''ID'') \<and>
   to_int (py_int example_env) (hd unkeyed_categories ''ID'') = Inr None \<and>
   map_option rows
     (view (snd (insert_csv example_env [''categories.csv'' \<mapsto> unkeyed_categories]
        ''categories'' ''categories.csv'' fresh_store)) ''categories'') =
     Some [[SqlInt 1, SqlText ''Books'', SqlNull]]"
  by code_simp

subsection \<open>The connection and the order of the run\<close>

lemma statements_simps [simp]:
  "statements []"
  "statements (a # as) = (a \<noteq> Connect \<and> a \<noteq> Close \<and> statements as)"
  "statements (as @ bs) = (statements as \<and> statements bs)"
  by (auto simp: statements_def)

lemma executemany_trace:
  "trace (snd (executemany env t cols ps s)) =
     trace s @ [ExecuteMany (InsertOrIgnore t cols) (length ps)]"
  by (simp add: executemany_def Let_def split: option.splits prod.splits)

lemma insert_csv_trace:
  "\<exists>as. trace (snd (insert_csv env files t path s)) = trace s @ as \<and> statements as"
proof (cases "count_rows env t (view s)")
  case (Inl e)
  then show ?thesis
    by (simp add: insert_csv_def execute_count_def)
next
  case T: (Inr n)
  show ?thesis
  proof (cases "files path")
    case None
    with T show ?thesis
      by (simp add: insert_csv_def execute_count_def)
  next
    case (Some rs)
    show ?thesis
    proof (cases "build_statement env t rs")
      case (Inl e)
      with T Some show ?thesis
        by (simp add: insert_csv_def execute_count_def)
    next
      case (Inr q)
      obtain cols ps where q: "q = (cols, ps)" by (cases q)
      let ?s1 = "logged (Execute (SelectCount t)) s"
      obtain r s2 where ex: "executemany env t cols ps ?s1 = (r, s2)"
        by (cases "executemany env t cols ps ?s1")
      with executemany_trace [of env t cols ps ?s1]
      have s2: "trace s2 = trace s @ [Execute (SelectCount t),
          ExecuteMany (InsertOrIgnore t cols) (length ps)]"
        by simp
      from T Some Inr q ex s2 show ?thesis
        by (cases r) (simp_all add: insert_csv_def execute_count_def Let_def split: sum.splits)
    qed
  qed
qed

lemma ingest_trace:
  "\<exists>as. trace (snd (ingest env files ts results s)) = trace s @ as \<and> statements as"
proof (induction ts arbitrary: results s)
  case Nil
  then show ?case by simp
next
  case (Cons t ts)
  show ?case
  proof (cases "DATA_FILES t")
    case None
    then show ?thesis by simp
  next
    case (Some file_name)
    obtain r s1 where run: "insert_csv env files t file_name s = (r, s1)"
      by (cases "insert_csv env files t file_name s")
    with insert_csv_trace [of env files t file_name s]
    obtain as where as: "trace s1 = trace s @ as" "statements as" by auto
    show ?thesis
    proof (cases r)
      case (Inl e)
      with Some run as show ?thesis by simp
    next
      case (Inr n)
      from Cons.IH [of "AList.update t n results" s1]
      obtain bs where "trace (snd (ingest env files ts (AList.update t n results) s1)) =
          trace s1 @ bs" "statements bs" by blast
      with Some run as Inr show ?thesis by simp
    qed
  qed
qed

lemma create_tables_trace:
  "\<exists>as. trace (create_tables s) = trace s @ as \<and> statements as"
  by (simp add: create_tables_def)

lemma loader_body_trace:
  "\<exists>as. trace (snd (loader_body env files c)) = trace c @ as \<and> statements as"
proof -
  obtain r s where run: "ingest env files order [] (create_tables c) = (r, s)"
    by (cases "ingest env files order [] (create_tables c)")
  from create_tables_trace [of c] obtain as
    where as: "trace (create_tables c) = trace c @ as" "statements as" by blast
  from ingest_trace [of env files order "[]" "create_tables c"] run obtain bs
    where bs: "trace s = trace (create_tables c) @ bs" "statements bs" by auto
  from run as bs show ?thesis
    by (cases r) (simp_all add: loader_body_def)
qed

lemma report_body_trace:
  assumes "\<not> in_txn c"
  shows "\<exists>as. trace (snd (report_body env q c)) = trace c @ as \<and> statements as"
proof (cases "run_query env q ((view c)(''report_output'' := None))")
  case (Inl e)
  from report_body_failure [OF Inl assms] show ?thesis by simp
next
  case (Inr T)
  from report_body_success [OF Inr assms] show ?thesis by simp
qed

text \<open>
  C9. Whatever the loader's run does, and whatever a run of the materializer does once
  it has both its inputs (so that it opens a connection), the calls on the connection
  start with the connect and end with the one close: no close and no second connect
  happens before, whether the body returned or raised.
\<close>

theorem connection_released_once:
  "(\<exists>body. trace (snd (insert_data_main env d files)) = Connect # body @ [Close] \<and>
           Connect \<notin> set body \<and> Close \<notin> set body) \<and>
   (\<exists>body. trace (snd (run_report_main env (Some db) (Some text))) =
             Connect # body @ [Close] \<and>
           Connect \<notin> set body \<and> Close \<notin> set body)"
proof
  let ?c = "connect (start d) :: 'a state"
  obtain r s where run: "loader_body env files ?c = (r, s)"
    by (cases "loader_body env files ?c")
  with loader_body_trace [of env files ?c] obtain as
    where "trace s = Connect # as" "statements as"
    by (auto simp: connect_start)
  with run show "\<exists>body. trace (snd (insert_data_main env d files)) = Connect # body @ [Close] \<and>
           Connect \<notin> set body \<and> Close \<notin> set body"
    by (simp add: insert_data_main_def close_def statements_def)
next
  let ?c = "connect (start (Some db)) :: 'a state"
  obtain r s where run: "report_body env (read_query text) ?c = (r, s)"
    by (cases "report_body env (read_query text) ?c")
  with report_body_trace [of ?c env "read_query text"] obtain as
    where "trace s = Connect # as" "statements as"
    by (auto simp: connect_start)
  with run show "\<exists>body. trace (snd (run_report_main env (Some db) (Some text))) =
             Connect # body @ [Close] \<and>
           Connect \<notin> set body \<and> Close \<notin> set body"
    by (simp add: run_report_main_def close_def statements_def)
qed

theorem connection_released_once_witness:
  "fst (insert_data_main example_env None [''products.csv'' \<mapsto> bad_products]) =
     Inl (InvalidFloatLiteral ''cheap'') \<and>
   (\<exists>body. trace (snd (insert_data_main example_env None
              [''products.csv'' \<mapsto> bad_products])) = Connect # body @ [Close] \<and>
           Connect \<notin> set body \<and> Close \<notin> set body) \<and>
   (\<exists>body. trace (snd (run_report_main example_env (Some example_store)
              (Some ''SELECT * FROM products;''))) = Connect # body @ [Close] \<and>
           Connect \<notin> set body \<and> Close \<notin> set body)"
proof -
  have "fst (insert_data_main example_env None [''products.csv'' \<mapsto> bad_products]) =
     Inl (InvalidFloatLiteral ''cheap'')"
    by code_simp
  with connection_released_once [of example_env None "[''products.csv'' \<mapsto> bad_products]"
      example_store "''SELECT * FROM products;''"]
  show ?thesis by simp
qed

text \<open>
  C8. When the five calls of \<^verbatim>\<open>insert_csv\<close> return, each on the state the one before
  left, in the order categories, products, customers, orders, reviews and each on the
  file \<^verbatim>\<open>DATA_FILES\<close> names, \<^verbatim>\<open>main\<close> returns normally with the connection closed
  on the last of these states, having printed the summary: one line per entity, in that
  order, with the count that entity's call returned.
\<close>

theorem main_ingests_in_order:
  assumes "insert_csv env files ''categories'' ''categories.csv''
             (create_tables (connect (start d))) = (Inr n1, s1)"
    and "insert_csv env files ''products'' ''products.csv'' s1 = (Inr n2, s2)"
    and "insert_csv env files ''customers'' ''customers.csv'' s2 = (Inr n3, s3)"
    and "insert_csv env files ''orders'' ''orders.csv'' s3 = (Inr n4, s4)"
    and "insert_csv env files ''reviews'' ''reviews.csv'' s4 = (Inr n5, s5)"
  shows "insert_data_main env d files =
           (Inr (),
            close (s5\<lparr>stdout := stdout s5 @
              [''Insertion summary:'',
               ''- categories: '' @ str_int n1 @ '' rows inserted'',
               ''- products: '' @ str_int n2 @ '' rows inserted'',
               ''- customers: '' @ str_int n3 @ '' rows inserted'',
               ''- orders: '' @ str_int n4 @ '' rows inserted'',
               ''- reviews: '' @ str_int n5 @ '' rows inserted'']\<rparr>))"
  using assms
  by (simp add: insert_data_main_def loader_body_def order_def DATA_FILES_def
      summary_line_def)

theorem main_ingests_in_order_witness:
  "fst (insert_data_main example_env None example_files) = Inr () \<and>
   stdout (snd (insert_data_main example_env None example_files)) =
     [''Warning: customers.csv not found, skipping customers.'',
      ''Warning: orders.csv not found, skipping orders.'',
      ''Warning: reviews.csv not found, skipping reviews.'',
      ''Insertion summary:'',
      ''- categories: 2 rows inserted'',
      ''- products: 1 rows inserted'',
      ''- customers: 0 rows inserted'',
      ''- orders: 0 rows inserted'',
      ''- reviews: 0 rows inserted'']"
proof -
  let ?s0 = "create_tables (connect (start None)) :: int state"
  let ?r1 = "insert_csv example_env example_files ''categories'' ''categories.csv'' ?s0"
  let ?r2 = "insert_csv example_env example_files ''products'' ''products.csv'' (snd ?r1)"
  let ?r3 = "insert_csv example_env example_files ''customers'' ''customers.csv'' (snd ?r2)"
  let ?r4 = "insert_csv example_env example_files ''orders'' ''orders.csv'' (snd ?r3)"
  let ?r5 = "insert_csv example_env example_files ''reviews'' ''reviews.csv'' (snd ?r4)"
  have "fst ?r1 = Inr 2" by code_simp
  then have 1: "?r1 = (Inr 2, snd ?r1)" by (simp add: prod_eq_iff)
  have "fst ?r2 = Inr 1" by code_simp
  then have 2: "?r2 = (Inr 1, snd ?r2)" by (simp add: prod_eq_iff)
  have "fst ?r3 = Inr 0" by code_simp
  then have 3: "?r3 = (Inr 0, snd ?r3)" by (simp add: prod_eq_iff)
  have "fst ?r4 = Inr 0" by code_simp
  then have 4: "?r4 = (Inr 0, snd ?r4)" by (simp add: prod_eq_iff)
  have "fst ?r5 = Inr 0" by code_simp
  then have 5: "?r5 = (Inr 0, snd ?r5)" by (simp add: prod_eq_iff)
  have out: "stdout (snd ?r5) =
     [''Warning: customers.csv not found, skipping customers.'',
      ''Warning: orders.csv not found, skipping orders.'',
      ''Warning: reviews.csv not found, skipping reviews.'']"
    by code_simp
  from main_ingests_in_order [OF 1 2 3 4 5] out show ?thesis
    by (simp add: close_def str_int_def digits.simps)
qed

end
